theory Spec2Isabelle
  imports Main
begin

section \<open>Strings and Windows paths\<close>

text \<open>
  A Python string is the list of its code points. String constants of the program are
  written as Isabelle literals and converted by \<open>str\<close>.
\<close>

type_synonym pystr = "nat list"

definition str :: "string \<Rightarrow> pystr" where
  "str s = map of_char s"

text \<open>
  \<open>str.lower\<close> follows the Unicode character database, which is no part of the program:
  every function below that calls it takes it as the parameter \<open>lower\<close>. On a string of
  ASCII characters \<open>str.lower\<close> maps \<open>A\<close>..\<open>Z\<close> to \<open>a\<close>..\<open>z\<close> and changes nothing else,
  which is \<open>ascii_lower\<close>.
\<close>

definition ascii_lower :: "pystr \<Rightarrow> pystr" where
  "ascii_lower s = map (\<lambda>c. if 65 \<le> c \<and> c \<le> 90 then c + 32 else c) s"

definition is_ascii :: "pystr \<Rightarrow> bool" where
  "is_ascii s = list_all (\<lambda>c. c < 128) s"

text \<open>\<open>x in s\<close> on strings: \<open>x\<close> occurs in \<open>s\<close> as a contiguous substring.\<close>

fun str_in :: "pystr \<Rightarrow> pystr \<Rightarrow> bool" where
  "str_in x [] = (x = [])"
| "str_in x (c # s) = (take (length x) (c # s) = x \<or> str_in x s)"

definition endswith :: "pystr \<Rightarrow> pystr \<Rightarrow> bool" where
  "endswith s suffix =
     (length suffix \<le> length s \<and> drop (length s - length suffix) s = suffix)"

text \<open>
  The path functions are those of \<open>ntpath\<close> (the program runs on Windows only): both
  the backslash and \<open>/\<close> separate components, and a drive letter \<open>X:\<close> is split off
  first. UNC roots (two leading separators, a server and a share) are not modelled.
\<close>

definition backslash :: nat where
  "backslash = 92"

definition slash :: nat where
  "slash = 47"

definition colon :: nat where
  "colon = 58"

definition dot :: nat where
  "dot = 46"

definition is_sep :: "nat \<Rightarrow> bool" where
  "is_sep c = (c = backslash \<or> c = slash)"

fun splitdrive :: "pystr \<Rightarrow> pystr \<times> pystr" where
  "splitdrive (a # b # r) = (if b = colon then ([a, b], r) else ([], a # b # r))"
| "splitdrive p = ([], p)"

text \<open>\<open>os.path.basename\<close>: what follows the last separator of the path without its drive.\<close>

definition basename :: "pystr \<Rightarrow> pystr" where
  "basename p = rev (takeWhile (\<lambda>c. \<not> is_sep c) (rev (snd (splitdrive p))))"

text \<open>\<open>str.rfind\<close> for a class of characters: the last index, or \<open>-1\<close>.\<close>

definition rfind :: "(nat \<Rightarrow> bool) \<Rightarrow> pystr \<Rightarrow> int" where
  "rfind P s =
     (case filter (\<lambda>i. P (s ! i)) (rev [0..<length s]) of
        [] \<Rightarrow> - 1
      | i # _ \<Rightarrow> int i)"

text \<open>
  \<open>os.path.splitext(p)[0]\<close>: the extension starts at the last dot, provided that dot comes
  after the last separator and some character between them is not a dot (leading dots of
  a file name do not start an extension).
\<close>

definition splitext_root :: "pystr \<Rightarrow> pystr" where
  "splitext_root p =
     (let sepIndex = rfind is_sep p;
          dotIndex = rfind (\<lambda>c. c = dot) p
      in if dotIndex > sepIndex \<and>
            list_ex (\<lambda>c. c \<noteq> dot)
              (take (nat dotIndex - nat (sepIndex + 1)) (drop (nat (sepIndex + 1)) p))
         then take (nat dotIndex) p
         else p)"

text \<open>
  \<open>os.path.join(p, n)\<close> for an \<open>n\<close> that is one path component, as the names a
  directory listing returns are (no separator, no drive): a backslash is inserted unless
  the part of \<open>p\<close> after its drive is empty or already ends in a separator.
\<close>

definition path_join :: "pystr \<Rightarrow> pystr \<Rightarrow> pystr" where
  "path_join p n =
     (case splitdrive p of
        (drive, rest) \<Rightarrow>
          drive @ (if rest \<noteq> [] \<and> \<not> is_sep (last rest) then rest @ [backslash] else rest) @ n)"

text \<open>A path literal written as its components, joined by backslashes.\<close>

fun win_path :: "string list \<Rightarrow> pystr" where
  "win_path [] = []"
| "win_path [c] = str c"
| "win_path (c # cs) = str c @ backslash # win_path cs"

section \<open>The file system seen by the scan\<close>

text \<open>
  A directory is the list of its entries in the order the operating system enumerates
  them. An entry is a file, a directory, a directory that the process is not allowed to
  list (\<open>Locked\<close>; \<open>os.scandir\<close> raises on it), or a symbolic link with its target.
\<close>

datatype fs_node =
    File
  | Dir "(pystr \<times> fs_node) list"
  | Locked "(pystr \<times> fs_node) list"
  | Link fs_node

text \<open>\<open>entry.is_dir()\<close> follows symbolic links; \<open>os.path.islink\<close> does not.\<close>

fun is_dir :: "fs_node \<Rightarrow> bool" where
  "is_dir File = False"
| "is_dir (Dir es) = True"
| "is_dir (Locked es) = True"
| "is_dir (Link t) = is_dir t"

fun is_link :: "fs_node \<Rightarrow> bool" where
  "is_link (Link t) = True"
| "is_link d = False"

text \<open>\<open>os.scandir(path)\<close> on what lies at \<open>path\<close>.\<close>

datatype py_error =
    KeyError
  | TypeError
  | AttributeError
  | OverflowError
  | OSError
  | PermissionError
  | NotADirectoryError
  | JSONDecodeError

fun scandir :: "fs_node \<Rightarrow> py_error + (pystr \<times> fs_node) list" where
  "scandir File = Inl NotADirectoryError"
| "scandir (Dir es) = Inr es"
| "scandir (Locked es) = Inl PermissionError"
| "scandir (Link t) = scandir t"

text \<open>The names \<open>os.walk\<close> reports as files of a directory: the entries that are no directories.\<close>

definition files_of :: "(pystr \<times> fs_node) list \<Rightarrow> pystr list" where
  "files_of es = map fst [e \<leftarrow> es. \<not> is_dir (snd e)]"

text \<open>
  \<open>os.walk(top)\<close>, top-down, with its defaults (\<open>onerror=None\<close>, \<open>followlinks=False\<close>):
  the directory itself with its file names, then each sub-directory in turn. A directory
  that cannot be listed yields nothing and raises nothing; a sub-directory that is a
  symbolic link (from Python 3.12 on, also a junction) is not entered; a \<open>top\<close> that is
  a link to a directory is listed.
\<close>

fun walk :: "pystr \<Rightarrow> fs_node \<Rightarrow> (pystr \<times> pystr list) list" where
  "walk dirpath File = []"
| "walk dirpath (Locked es) = []"
| "walk dirpath (Link t) = walk dirpath t"
| "walk dirpath (Dir es) =
     (dirpath, files_of es) #
     concat (map (\<lambda>(n, d). walk (path_join dirpath n) d)
                 [(n, d) \<leftarrow> es. is_dir d \<and> \<not> is_link d])"

section \<open>Choosing the executable of a folder\<close>

text \<open>
  \<open>find_game_exe\<close>, the function nested in \<open>detect_games\<close>. Its first loop collects the
  candidates.
\<close>

fun collect_exes :: "(pystr \<Rightarrow> pystr) \<Rightarrow> (pystr \<times> pystr list) list \<Rightarrow> pystr list" where
  "collect_exes lower [] = []"
| "collect_exes lower ((root, files) # rest) =
     map (path_join root) [f \<leftarrow> files. endswith (lower f) (str ''.exe'')] @
     collect_exes lower rest"

definition exe_candidates :: "(pystr \<Rightarrow> pystr) \<Rightarrow> pystr \<Rightarrow> fs_node \<Rightarrow> pystr list" where
  "exe_candidates lower folder_path folder = collect_exes lower (walk folder_path folder)"

definition excluded :: "(pystr \<Rightarrow> pystr) \<Rightarrow> pystr \<Rightarrow> bool" where
  "excluded lower c =
     list_ex (\<lambda>x. str_in x (lower (basename c)))
       [str ''unitycrashhandler'', str ''_data'', str ''_x64'']"

fun name_loop :: "(pystr \<Rightarrow> pystr) \<Rightarrow> pystr \<Rightarrow> pystr list \<Rightarrow> pystr option" where
  "name_loop lower folder_basename [] = None"
| "name_loop lower folder_basename (c # cs) =
     (if str_in folder_basename (lower (splitext_root (basename c))) then
        (if \<not> excluded lower c then Some c else name_loop lower folder_basename cs)
      else name_loop lower folder_basename cs)"

fun launcher_loop :: "(pystr \<Rightarrow> pystr) \<Rightarrow> pystr list \<Rightarrow> pystr option" where
  "launcher_loop lower [] = None"
| "launcher_loop lower (c # cs) =
     (if str_in (str ''launcher'') (lower (basename c)) then
        (if \<not> excluded lower c then Some c else launcher_loop lower cs)
      else launcher_loop lower cs)"

text \<open>The part of \<open>find_game_exe\<close> after the walk.\<close>

definition select_exe :: "(pystr \<Rightarrow> pystr) \<Rightarrow> pystr \<Rightarrow> pystr list \<Rightarrow> pystr option" where
  "select_exe lower folder_path candidates =
     (case candidates of
        [] \<Rightarrow> None
      | first # _ \<Rightarrow>
          (let folder_basename = lower (basename folder_path) in
           case name_loop lower folder_basename candidates of
             Some c \<Rightarrow> Some c
           | None \<Rightarrow>
               (case launcher_loop lower candidates of
                  Some c \<Rightarrow> Some c
                | None \<Rightarrow>
                    (case [c \<leftarrow> candidates. \<not> excluded lower c] of
                       c # _ \<Rightarrow> Some c
                     | [] \<Rightarrow> Some first))))"

definition find_game_exe :: "(pystr \<Rightarrow> pystr) \<Rightarrow> pystr \<Rightarrow> fs_node \<Rightarrow> pystr option" where
  "find_game_exe lower folder_path folder =
     select_exe lower folder_path (exe_candidates lower folder_path folder)"

text \<open>
  The selection rule in the words of the specification: four steps in order, the first
  step that finds a candidate decides, and within a step the first candidate in
  enumeration order is taken.
\<close>

definition heuristic_spec :: "(pystr \<Rightarrow> pystr) \<Rightarrow> pystr \<Rightarrow> pystr list \<Rightarrow> pystr option" where
  "heuristic_spec lower folder_name candidates =
     (case find (\<lambda>c. str_in (lower folder_name) (lower (splitext_root (basename c))) \<and>
                      \<not> excluded lower c) candidates of
        Some c \<Rightarrow> Some c
      | None \<Rightarrow>
     (case find (\<lambda>c. str_in (str ''launcher'') (lower (basename c)) \<and> \<not> excluded lower c)
             candidates of
        Some c \<Rightarrow> Some c
      | None \<Rightarrow>
     (case find (\<lambda>c. \<not> excluded lower c) candidates of
        Some c \<Rightarrow> Some c
      | None \<Rightarrow>
     (case candidates of [] \<Rightarrow> None | c # _ \<Rightarrow> Some c))))"

text \<open>
  Some file whose name ends in \<open>.exe\<close>, in any letter case, lies beneath the folder,
  wherever: also in a directory that cannot be listed or behind a symbolic link.
\<close>

fun has_exe :: "(pystr \<Rightarrow> pystr) \<Rightarrow> fs_node \<Rightarrow> bool" where
  "has_exe lower File = False"
| "has_exe lower (Dir es) =
     (list_ex (\<lambda>n. endswith (lower n) (str ''.exe'')) (files_of es) \<or>
      list_ex (has_exe lower) (map snd es))"
| "has_exe lower (Locked es) =
     (list_ex (\<lambda>n. endswith (lower n) (str ''.exe'')) (files_of es) \<or>
      list_ex (has_exe lower) (map snd es))"
| "has_exe lower (Link t) = has_exe lower t"

text \<open>
  Some such file lies in a directory that the walk from the folder enters: the folder
  itself (through a link, if it is one) and, below it, the directories that can be listed
  and are no symbolic links.
\<close>

fun has_reachable_exe :: "(pystr \<Rightarrow> pystr) \<Rightarrow> fs_node \<Rightarrow> bool" where
  "has_reachable_exe lower File = False"
| "has_reachable_exe lower (Locked es) = False"
| "has_reachable_exe lower (Link t) = has_reachable_exe lower t"
| "has_reachable_exe lower (Dir es) =
     (list_ex (\<lambda>n. endswith (lower n) (str ''.exe'')) (files_of es) \<or>
      list_ex (has_reachable_exe lower)
        (map snd [e \<leftarrow> es. is_dir (snd e) \<and> \<not> is_link (snd e)]))"

section \<open>JSON values and game records\<close>

text \<open>
  What \<open>json.load\<close> returns and \<open>json.dump\<close> accepts: \<open>None\<close>, booleans, integers,
  strings, lists and dictionaries with string keys (in insertion order). Floating-point
  numbers are left out. The attributes of a \<open>GameEntry\<close> are untyped in the program, so
  every field holds a JSON value.
\<close>

datatype json =
    JNull
  | JBool bool
  | JInt int
  | JStr pystr
  | JList "json list"
  | JObj "(pystr \<times> json) list"

text \<open>\<open>d.get(k, default)\<close> and \<open>{**d, k: v}\<close> on a dictionary.\<close>

definition dict_get :: "(pystr \<times> json) list \<Rightarrow> pystr \<Rightarrow> json \<Rightarrow> json" where
  "dict_get d k dflt = (case map_of d k of Some v \<Rightarrow> v | None \<Rightarrow> dflt)"

fun dict_set :: "(pystr \<times> json) list \<Rightarrow> pystr \<Rightarrow> json \<Rightarrow> (pystr \<times> json) list" where
  "dict_set [] k v = [(k, v)]"
| "dict_set ((k', v') # d) k v = (if k' = k then (k, v) # d else (k', v') # dict_set d k v)"

record GameEntry =
  name :: json
  path :: json
  icon_path :: json
  is_favorite :: json
  "notes" :: json
  last_played :: json
  total_playtime :: json

text \<open>\<open>GameEntry.__init__\<close>.\<close>

definition new_entry :: "json \<Rightarrow> json \<Rightarrow> json \<Rightarrow> GameEntry" where
  "new_entry n p i =
     \<lparr>name = n, path = p, icon_path = i, is_favorite = JBool False, notes = JStr [],
      last_played = JStr (str ''Never''), total_playtime = JInt 0\<rparr>"

definition to_dict :: "GameEntry \<Rightarrow> (pystr \<times> json) list" where
  "to_dict g =
     [(str ''name'', name g),
      (str ''path'', path g),
      (str ''icon_path'', icon_path g),
      (str ''is_favorite'', is_favorite g),
      (str ''notes'', notes g),
      (str ''last_played'', last_played g),
      (str ''total_playtime'', total_playtime g)]"

text \<open>
  \<open>GameEntry.from_dict\<close>. Subscripting anything but a dictionary with a string raises
  \<open>TypeError\<close>; a dictionary without the key raises \<open>KeyError\<close>.
\<close>

fun from_dict :: "json \<Rightarrow> py_error + GameEntry" where
  "from_dict (JObj d) =
     (case map_of d (str ''name'') of
        None \<Rightarrow> Inl KeyError
      | Some n \<Rightarrow>
          (case map_of d (str ''path'') of
             None \<Rightarrow> Inl KeyError
           | Some p \<Rightarrow>
               Inr ((new_entry n p (dict_get d (str ''icon_path'') JNull))
                     \<lparr>is_favorite := dict_get d (str ''is_favorite'') (JBool False),
                      notes := dict_get d (str ''notes'') (JStr []),
                      last_played := dict_get d (str ''last_played'') (JStr (str ''Never'')),
                      total_playtime := dict_get d (str ''total_playtime'') (JInt 0)\<rparr>)))"
| "from_dict _ = Inl TypeError"

section \<open>The launcher and its backing file\<close>

text \<open>
  The backing file \<open>games.json\<close> as \<open>load_games\<close> meets it: absent, present but not
  openable, present with text that \<open>json.load\<close> rejects, or present with the text of a
  JSON value. Writing and reading the text of a JSON value are inverse to each other, so
  the file is represented by the value itself.
\<close>

datatype disk_file = Missing | Unreadable | NotJson | Json json

datatype message =
    LoadFailed py_error
  | SaveFailed
  | LaunchFailed
  | Information string

text \<open>
  The attributes of \<open>GameNestLauncher\<close> that the catalog logic reads and writes, the value
  of the blur slider widget, the backing file with whether it can be opened for writing,
  and the message boxes shown so far.
\<close>

record launcher =
  games :: "GameEntry list"
  custom_scan_folders :: json
  custom_background_path :: json
  bg_blur_amount :: json
  slider_value :: int
  games_file :: disk_file
  file_writable :: bool
  messages :: "message list"

text \<open>The dictionary written for one record by \<open>save_games\<close>, and the whole document.\<close>

definition game_dict :: "GameEntry \<Rightarrow> json" where
  "game_dict g =
     JObj (dict_set (dict_set (to_dict g) (str ''notes'') (notes g))
             (str ''last_played'') (last_played g))"

definition document :: "launcher \<Rightarrow> json" where
  "document st =
     JObj [(str ''games'', JList (map game_dict (games st))),
           (str ''custom_scan_folders'', custom_scan_folders st),
           (str ''custom_background_path'', custom_background_path st),
           (str ''custom_background_blur'', bg_blur_amount st)]"

definition save_games :: "launcher \<Rightarrow> launcher" where
  "save_games st =
     (if file_writable st then st\<lparr>games_file := Json (document st)\<rparr>
      else st\<lparr>messages := messages st @ [SaveFailed]\<rparr>)"

definition set_background_blur :: "launcher \<Rightarrow> int \<Rightarrow> launcher" where
  "set_background_blur st v = save_games (st\<lparr>bg_blur_amount := JInt v\<rparr>)"

text \<open>
  \<open>blur_slider.setValue(v)\<close>. The argument is a C \<open>int\<close>: for a Python integer outside
  the 32-bit range the call raises \<open>OverflowError\<close> and nothing else happens. The slider
  was given the range 0 to 20 and its \<open>valueChanged\<close> signal is connected to
  \<open>set_background_blur\<close>; a Qt slider bounds the value to its range and emits the signal
  only when the bounded value differs from the one it holds.
\<close>

definition c_int :: "int \<Rightarrow> bool" where
  "c_int v = (- 2147483648 \<le> v \<and> v \<le> 2147483647)"

definition slider_setValue :: "launcher \<Rightarrow> int \<Rightarrow> py_error + launcher" where
  "slider_setValue st v =
     (if \<not> c_int v then Inl OverflowError
      else
        (let b = max 0 (min 20 v) in
         if b = slider_value st then Inr st
         else Inr (set_background_blur (st\<lparr>slider_value := b\<rparr>) b)))"

text \<open>
  The body of the loop of \<open>load_games\<close> for one element \<open>x\<close> of the games array:
  \<open>from_dict\<close>, then the two fields read once more with \<open>x.get\<close>.
\<close>

fun load_entry :: "json \<Rightarrow> py_error + GameEntry" where
  "load_entry (JObj d) =
     (case from_dict (JObj d) of
        Inl e \<Rightarrow> Inl e
      | Inr g \<Rightarrow>
          Inr (g\<lparr>notes := dict_get d (str ''notes'') (JStr []),
                 last_played := dict_get d (str ''last_played'') (JStr (str ''Never''))\<rparr>))"
| "load_entry x = from_dict x"

text \<open>
  The loop itself. Each record is appended as soon as it is built, so an exception leaves
  the records built before it in \<open>games\<close>. The result pairs the exception raised, if any,
  with the state at that moment.
\<close>

fun load_entries :: "json list \<Rightarrow> launcher \<Rightarrow> py_error option \<times> launcher" where
  "load_entries [] st = (None, st)"
| "load_entries (x # xs) st =
     (case load_entry x of
        Inl e \<Rightarrow> (Some e, st)
      | Inr g \<Rightarrow> load_entries xs (st\<lparr>games := games st @ [g]\<rparr>))"

text \<open>
  What a \<open>for\<close> loop iterates over: the elements of a list, the keys of a dictionary, the
  characters of a string; anything else raises \<open>TypeError\<close>.
\<close>

fun py_iter :: "json \<Rightarrow> json list option" where
  "py_iter (JList xs) = Some xs"
| "py_iter (JObj d) = Some (map (\<lambda>kv. JStr (fst kv)) d)"
| "py_iter (JStr s) = Some (map (\<lambda>c. JStr [c]) s)"
| "py_iter _ = None"

text \<open>
  The number that \<open>setBlurRadius\<close> and \<open>setValue\<close> are given: an integer, or a boolean,
  which Python counts as the integer 1 or 0. Any other value makes them raise
  \<open>TypeError\<close>.
\<close>

fun as_number :: "json \<Rightarrow> int option" where
  "as_number (JInt b) = Some b"
| "as_number (JBool b) = Some (if b then 1 else 0)"
| "as_number _ = None"

text \<open>
  The statements of \<open>load_games\<close> inside \<open>try\<close>, after \<open>json.load\<close> has returned \<open>data\<close>.
  An integer outside the range of a C \<open>int\<close> makes \<open>setValue\<close> (or, when it does not fit
  a C \<open>double\<close> either, \<open>setBlurRadius\<close> before it) raise \<open>OverflowError\<close>. When one of
  the two calls raises, the attributes assigned before stay assigned.
\<close>

definition load_body :: "json \<Rightarrow> launcher \<Rightarrow> py_error option \<times> launcher" where
  "load_body data st =
     (let st1 = st\<lparr>games := []\<rparr> in
      case data of
        JObj d \<Rightarrow>
          (case py_iter (dict_get d (str ''games'') (JList [])) of
             None \<Rightarrow> (Some TypeError, st1)
           | Some xs \<Rightarrow>
               (case load_entries xs st1 of
                  (Some e, st2) \<Rightarrow> (Some e, st2)
                | (None, st2) \<Rightarrow>
                    (let st3 = st2\<lparr>custom_scan_folders :=
                                      dict_get d (str ''custom_scan_folders'') (JList []),
                                    custom_background_path :=
                                      dict_get d (str ''custom_background_path'') JNull,
                                    bg_blur_amount :=
                                      dict_get d (str ''custom_background_blur'') (JInt 0)\<rparr>
                     in case as_number (bg_blur_amount st3) of
                          None \<Rightarrow> (Some TypeError, st3)
                        | Some b \<Rightarrow>
                            (case slider_setValue st3 b of
                               Inl e \<Rightarrow> (Some e, st3)
                             | Inr st4 \<Rightarrow> (None, st4)))))
      | _ \<Rightarrow> (Some AttributeError, st1))"

definition load_warning :: "py_error \<Rightarrow> launcher \<Rightarrow> launcher" where
  "load_warning e st = st\<lparr>messages := messages st @ [LoadFailed e]\<rparr>"

definition load_games :: "launcher \<Rightarrow> launcher" where
  "load_games st =
     (case games_file st of
        Missing \<Rightarrow> save_games st
      | Unreadable \<Rightarrow> load_warning OSError st
      | NotJson \<Rightarrow> load_warning JSONDecodeError st
      | Json data \<Rightarrow>
          (case load_body data st of
             (None, st') \<Rightarrow> st'
           | (Some e, st') \<Rightarrow> load_warning e st'))"

text \<open>
  \<open>GameNestLauncher.__init__\<close>, as far as the catalog is concerned: the attributes get
  their initial values, the slider is created at 0, and \<open>load_games\<close> runs. This is the
  only call of \<open>load_games\<close>.
\<close>

definition init_state :: "disk_file \<Rightarrow> bool \<Rightarrow> launcher" where
  "init_state f w =
     \<lparr>games = [], custom_scan_folders = JList [], custom_background_path = JNull,
      bg_blur_amount = JInt 0, slider_value = 0, games_file = f, file_writable = w,
      messages = []\<rparr>"

definition startup :: "disk_file \<Rightarrow> bool \<Rightarrow> launcher" where
  "startup f w = load_games (init_state f w)"

section \<open>Operations on the catalog\<close>

text \<open>
  A class body that defines a method several times keeps the last definition. The
  definitions below are the ones in force: \<open>add_game_manually\<close> (the second of two),
  \<open>add_scan_folder\<close> (the last of four) and \<open>launch_selected_game\<close> (the second of two
  in the class). A file dialog is represented by its outcome: \<open>None\<close> when it was
  cancelled, the chosen path otherwise. \<open>get_game_icon\<close> depends on the Windows icon API
  and is a parameter; it returns a path or \<open>None\<close>.
\<close>

definition add_game_manually :: "(pystr \<Rightarrow> json) \<Rightarrow> launcher \<Rightarrow> pystr option \<Rightarrow> launcher" where
  "add_game_manually get_game_icon st choice =
     (case choice of
        None \<Rightarrow> st
      | Some exe \<Rightarrow>
          save_games
            (st\<lparr>games := games st @
                   [new_entry (JStr (splitext_root (basename exe))) (JStr exe) (get_game_icon exe)]\<rparr>))"

text \<open>
  \<open>folder not in self.custom_scan_folders\<close> is list membership on a list, a substring test
  on a string, a key test on a dictionary and a \<open>TypeError\<close> otherwise; \<open>append\<close> exists
  on lists only. No \<open>save_games\<close> follows.
\<close>

definition add_scan_folder :: "launcher \<Rightarrow> pystr option \<Rightarrow> py_error + launcher" where
  "add_scan_folder st choice =
     (case choice of
        None \<Rightarrow> Inr st
      | Some folder \<Rightarrow>
          (case custom_scan_folders st of
             JList xs \<Rightarrow>
               (if JStr folder \<notin> set xs
                then Inr (st\<lparr>custom_scan_folders := JList (xs @ [JStr folder])\<rparr>)
                else Inr st)
           | JStr s \<Rightarrow> (if \<not> str_in folder s then Inl AttributeError else Inr st)
           | JObj d \<Rightarrow> (if folder \<notin> fst ` set d then Inl AttributeError else Inr st)
           | _ \<Rightarrow> Inl TypeError))"

definition set_custom_background :: "launcher \<Rightarrow> pystr option \<Rightarrow> launcher" where
  "set_custom_background st choice =
     (case choice of
        None \<Rightarrow> st
      | Some p \<Rightarrow> save_games (st\<lparr>custom_background_path := JStr p\<rparr>))"

text \<open>
  \<open>launch_selected_game\<close> as the class ends up with it. \<open>current\<close> is the path stored in
  the selected sidebar item, if an item is selected; \<open>started\<close> tells whether
  \<open>os.startfile\<close> returned normally.
\<close>

definition launch_selected_game :: "launcher \<Rightarrow> pystr option \<Rightarrow> bool \<Rightarrow> launcher" where
  "launch_selected_game st current started =
     (case current of
        None \<Rightarrow> st\<lparr>messages := messages st @ [Information ''Please select a game first.'']\<rparr>
      | Some p \<Rightarrow>
          (if started then st else st\<lparr>messages := messages st @ [LaunchFailed]\<rparr>))"

text \<open>
  \<open>next((g for g in self.games if g.path == path), None)\<close> followed by assignments to
  attributes of \<open>g\<close>: the first record with that path is the one that changes.
\<close>

fun update_first :: "('a \<Rightarrow> bool) \<Rightarrow> ('a \<Rightarrow> 'a) \<Rightarrow> 'a list \<Rightarrow> 'a list" where
  "update_first P f [] = []"
| "update_first P f (x # xs) = (if P x then f x # xs else x # update_first P f xs)"

text \<open>
  The function \<open>launch_selected_game\<close> defined at module level, before the class. Nothing
  calls it. It starts the process, waits for it, and records the session;
  \<open>session_seconds\<close> is \<open>int(end_time - start_time)\<close> and \<open>now\<close> the formatted current
  time. \<open>+=\<close> on a value that is no number raises \<open>TypeError\<close>, which the function
  reports like a failed launch.
\<close>

definition launch_selected_game_module ::
  "launcher \<Rightarrow> pystr option \<Rightarrow> bool \<Rightarrow> int \<Rightarrow> pystr \<Rightarrow> launcher" where
  "launch_selected_game_module st current spawned session_seconds now =
     (case current of
        None \<Rightarrow> st\<lparr>messages := messages st @ [Information ''Please select a game first.'']\<rparr>
      | Some p \<Rightarrow>
          (case find (\<lambda>g. path g = JStr p) (games st) of
             None \<Rightarrow> st
           | Some game \<Rightarrow>
               (if \<not> spawned then st\<lparr>messages := messages st @ [LaunchFailed]\<rparr>
                else
                  (case as_number (total_playtime game) of
                     None \<Rightarrow> st\<lparr>messages := messages st @ [LaunchFailed]\<rparr>
                   | Some t \<Rightarrow>
                       (let st' = save_games
                              (st\<lparr>games :=
                                    update_first (\<lambda>g. path g = JStr p)
                                      (\<lambda>g. g\<lparr>total_playtime := JInt (t + session_seconds),
                                                last_played := JStr now\<rparr>)
                                      (games st)\<rparr>)
                        in st'\<lparr>messages := messages st' @ [Information ''Playtime Recorded'']\<rparr>)))))"

section \<open>Detection\<close>

definition default_folders :: "pystr list" where
  "default_folders =
     [win_path [''C:'', ''Program Files (x86)'', ''Steam'', ''steamapps'', ''common''],
      win_path [''C:'', ''Program Files'', ''Epic Games''],
      win_path [''C:'', ''Program Files'', ''HoYoPlay'', ''games''],
      win_path [''C:'', ''Program Files'', ''GOG Galaxy'', ''Games''],
      win_path [''C:'', ''Games'']]"

text \<open>
  The inner loop of \<open>detect_games\<close> over the entries of one root, in the order
  \<open>os.scandir\<close> yields them. An entry that is a directory is searched; its executable is
  proposed unless a record of the catalog already has that path.
\<close>

fun scan_entries ::
  "(pystr \<Rightarrow> pystr) \<Rightarrow> (pystr \<Rightarrow> json) \<Rightarrow> GameEntry list \<Rightarrow> pystr \<Rightarrow>
   (pystr \<times> fs_node) list \<Rightarrow> GameEntry list" where
  "scan_entries lower get_game_icon known root [] = []"
| "scan_entries lower get_game_icon known root ((n, d) # es) =
     (if is_dir d then
        (case find_game_exe lower (path_join root n) d of
           None \<Rightarrow> scan_entries lower get_game_icon known root es
         | Some exe_found \<Rightarrow>
             (if exe_found \<noteq> [] \<and> \<not> list_ex (\<lambda>g. path g = JStr exe_found) known
              then new_entry (JStr n) (JStr exe_found) (get_game_icon exe_found) #
                   scan_entries lower get_game_icon known root es
              else scan_entries lower get_game_icon known root es))
      else scan_entries lower get_game_icon known root es)"

text \<open>
  The outer loop. The file system is a function from the paths of the roots to what lies
  there; \<open>os.scandir\<close> raises on a path that is no directory or cannot be listed, and
  nothing in \<open>detect_games\<close> catches that.
\<close>

fun scan_roots ::
  "(pystr \<Rightarrow> pystr) \<Rightarrow> (pystr \<Rightarrow> json) \<Rightarrow> (pystr \<Rightarrow> fs_node option) \<Rightarrow> GameEntry list \<Rightarrow>
   pystr list \<Rightarrow> py_error + GameEntry list" where
  "scan_roots lower get_game_icon fs known [] = Inr []"
| "scan_roots lower get_game_icon fs known (root # roots) =
     (case fs root of
        None \<Rightarrow> Inl OSError
      | Some node \<Rightarrow>
          (case scandir node of
             Inl e \<Rightarrow> Inl e
           | Inr es \<Rightarrow>
               (case scan_roots lower get_game_icon fs known roots of
                  Inl e \<Rightarrow> Inl e
                | Inr cs \<Rightarrow> Inr (scan_entries lower get_game_icon known root es @ cs))))"

text \<open>The loop that adds the records the user selected in the dialog.\<close>

fun accept_selected :: "GameEntry list \<Rightarrow> GameEntry list \<Rightarrow> GameEntry list" where
  "accept_selected gs [] = gs"
| "accept_selected gs (s # ss) =
     accept_selected (if \<not> list_ex (\<lambda>g. path g = path s) gs then gs @ [s] else gs) ss"

fun str_items :: "json list \<Rightarrow> pystr list option" where
  "str_items [] = Some []"
| "str_items (JStr s # xs) = map_option ((#) s) (str_items xs)"
| "str_items (_ # xs) = None"

text \<open>
  \<open>detect_games\<close>. The scan folders must be a list (anything else cannot be
  concatenated to \<open>default_folders\<close>) and the model requires its elements to be strings.
  \<open>choice\<close> is the outcome of the dialog: \<open>None\<close> when it was rejected, the selected rows
  otherwise.
\<close>

definition detect_games ::
  "(pystr \<Rightarrow> pystr) \<Rightarrow> (pystr \<Rightarrow> json) \<Rightarrow> (pystr \<Rightarrow> fs_node option) \<Rightarrow> launcher \<Rightarrow>
   nat list option \<Rightarrow> py_error + launcher" where
  "detect_games lower get_game_icon fs st choice =
     (case custom_scan_folders st of
        JList xs \<Rightarrow>
          (case str_items xs of
             None \<Rightarrow> Inl TypeError
           | Some folders \<Rightarrow>
               (let to_scan = [p \<leftarrow> default_folders @ folders. fs p \<noteq> None] in
                case scan_roots lower get_game_icon fs (games st) to_scan of
                  Inl e \<Rightarrow> Inl e
                | Inr candidates \<Rightarrow>
                    (if candidates = []
                     then Inr (st\<lparr>messages := messages st @
                                 [Information ''No games found in the specified folders.'']\<rparr>)
                     else
                       (case choice of
                          None \<Rightarrow> Inr st
                        | Some rows \<Rightarrow>
                            (let selected = map (\<lambda>i. candidates ! i)
                                              [i \<leftarrow> rows. i < length candidates]
                             in Inr (save_games
                                       (st\<lparr>games := accept_selected (games st) selected\<rparr>)))))))
      | _ \<Rightarrow> Inl TypeError)"

section \<open>Properties of the executable chooser\<close>

lemma str_eq_iff [simp]: "(str a = str b) = (a = b)"
  by (simp add: str_def inj_def)

lemma str_Nil_iff [simp]: "(str a = []) = (a = [])"
  by (simp add: str_def)

lemma name_loop_find:
  "name_loop lower fb cs =
     find (\<lambda>c. str_in fb (lower (splitext_root (basename c))) \<and> \<not> excluded lower c) cs"
  by (induction cs) simp_all

lemma launcher_loop_find:
  "launcher_loop lower cs =
     find (\<lambda>c. str_in (str ''launcher'') (lower (basename c)) \<and> \<not> excluded lower c) cs"
  by (induction cs) simp_all

lemma filter_head_find:
  "(case filter P xs of [] \<Rightarrow> a | x # _ \<Rightarrow> f x) = (case find P xs of None \<Rightarrow> a | Some x \<Rightarrow> f x)"
  by (induction xs) simp_all

lemma select_exe_spec:
  "select_exe lower folder_path candidates =
     heuristic_spec lower (basename folder_path) candidates"
proof (cases candidates)
  case Nil
  then show ?thesis by (simp add: select_exe_def heuristic_spec_def)
next
  case (Cons first rest)
  have "(case [c \<leftarrow> candidates. \<not> excluded lower c] of [] \<Rightarrow> Some first | c # _ \<Rightarrow> Some c) =
        (case find (\<lambda>c. \<not> excluded lower c) candidates of
           None \<Rightarrow> Some first | Some c \<Rightarrow> Some c)"
    by (rule filter_head_find)
  then show ?thesis
    unfolding select_exe_def heuristic_spec_def Let_def name_loop_find launcher_loop_find
    by (simp add: Cons split: option.splits list.splits)
qed

lemma lower_ascii_fun:
  assumes "\<forall>s. is_ascii s \<longrightarrow> lower s = ascii_lower s"
  shows "lower = (\<lambda>s. if is_ascii s then ascii_lower s else lower s)"
  using assms by (intro ext) simp

lemma lower_on_ascii:
  assumes "\<forall>s. is_ascii s \<longrightarrow> lower s = ascii_lower s"
  shows "find_game_exe lower p t =
         find_game_exe (\<lambda>s. if is_ascii s then ascii_lower s else lower s) p t"
proof -
  have "lower = (\<lambda>s. if is_ascii s then ascii_lower s else lower s)"
    using assms by (intro ext) simp
  then show ?thesis
    by (rule arg_cong [where f = "\<lambda>l. find_game_exe l p t"])
qed

text \<open>
  A folder \<open>Halo\<close> that holds \<open>Halo.exe\<close>, \<open>unitycrashhandler64.exe\<close> and
  \<open>HaloLauncher.exe\<close>, with \<open>HaloLauncher.exe\<close> enumerated first: its name without
  extension contains "halo" too and it is not excluded, so the first loop returns it, not
  \<open>Halo.exe\<close>. All names are ASCII, where \<open>str.lower\<close> is \<open>ascii_lower\<close>.
\<close>

theorem find_game_exe_halo_counterexample:
  "find_game_exe ascii_lower (win_path [''C:'', ''Games'', ''Halo''])
     (Dir [(str ''HaloLauncher.exe'', File), (str ''Halo.exe'', File),
           (str ''unitycrashhandler64.exe'', File)])
   = Some (win_path [''C:'', ''Games'', ''Halo'', ''HaloLauncher.exe'']) \<and>
   find_game_exe ascii_lower (win_path [''C:'', ''Games'', ''Halo''])
     (Dir [(str ''HaloLauncher.exe'', File), (str ''Halo.exe'', File),
           (str ''unitycrashhandler64.exe'', File)])
   \<noteq> Some (win_path [''C:'', ''Games'', ''Halo'', ''Halo.exe''])"
  by code_simp

text \<open>
  C1, as amended: the executable chosen for a folder is the one the four-step rule of
  the specification picks among the enumerated candidates: a non-excluded candidate whose
  name without extension contains the folder's name, else a non-excluded candidate whose
  name contains "launcher", else a non-excluded candidate, else any candidate; each step
  takes the first such candidate in enumeration order, names are compared after
  \<open>str.lower\<close>. In particular, for the folder \<open>Halo\<close> holding \<open>Halo.exe\<close>,
  \<open>unitycrashhandler64.exe\<close> and \<open>HaloLauncher.exe\<close>, step 1 picks \<open>Halo.exe\<close> in each of
  the three enumeration orders that put \<open>Halo.exe\<close> before \<open>HaloLauncher.exe\<close>. The rule
  holds for whatever \<open>lower\<close> computes; the example needs of it only what \<open>str.lower\<close>
  does on ASCII strings.
\<close>

theorem find_game_exe_heuristic:
  "find_game_exe lower folder_path folder =
     heuristic_spec lower (basename folder_path) (exe_candidates lower folder_path folder) \<and>
   ((\<forall>s. is_ascii s \<longrightarrow> lower s = ascii_lower s) \<longrightarrow>
    (\<forall>es \<in> set [[(str ''Halo.exe'', File), (str ''unitycrashhandler64.exe'', File),
                  (str ''HaloLauncher.exe'', File)],
                 [(str ''Halo.exe'', File), (str ''HaloLauncher.exe'', File),
                  (str ''unitycrashhandler64.exe'', File)],
                 [(str ''unitycrashhandler64.exe'', File), (str ''Halo.exe'', File),
                  (str ''HaloLauncher.exe'', File)]].
       find_game_exe lower (win_path [''C:'', ''Games'', ''Halo'']) (Dir es)
         = Some (win_path [''C:'', ''Games'', ''Halo'', ''Halo.exe''])))"
proof (intro conjI impI)
  show "find_game_exe lower folder_path folder =
     heuristic_spec lower (basename folder_path) (exe_candidates lower folder_path folder)"
    unfolding find_game_exe_def by (rule select_exe_spec)
next
  assume ascii: "\<forall>s. is_ascii s \<longrightarrow> lower s = ascii_lower s"
  let ?l = "\<lambda>s. if is_ascii s then ascii_lower s else lower s"
  have 1: "find_game_exe ?l (win_path [''C:'', ''Games'', ''Halo''])
             (Dir [(str ''Halo.exe'', File), (str ''unitycrashhandler64.exe'', File),
                   (str ''HaloLauncher.exe'', File)])
           = Some (win_path [''C:'', ''Games'', ''Halo'', ''Halo.exe''])"
    by code_simp
  have 2: "find_game_exe ?l (win_path [''C:'', ''Games'', ''Halo''])
             (Dir [(str ''Halo.exe'', File), (str ''HaloLauncher.exe'', File),
                   (str ''unitycrashhandler64.exe'', File)])
           = Some (win_path [''C:'', ''Games'', ''Halo'', ''Halo.exe''])"
    by code_simp
  have 3: "find_game_exe ?l (win_path [''C:'', ''Games'', ''Halo''])
             (Dir [(str ''unitycrashhandler64.exe'', File), (str ''Halo.exe'', File),
                   (str ''HaloLauncher.exe'', File)])
           = Some (win_path [''C:'', ''Games'', ''Halo'', ''Halo.exe''])"
    by code_simp
  show "\<forall>es \<in> set [[(str ''Halo.exe'', File), (str ''unitycrashhandler64.exe'', File),
                  (str ''HaloLauncher.exe'', File)],
                 [(str ''Halo.exe'', File), (str ''HaloLauncher.exe'', File),
                  (str ''unitycrashhandler64.exe'', File)],
                 [(str ''unitycrashhandler64.exe'', File), (str ''Halo.exe'', File),
                  (str ''HaloLauncher.exe'', File)]].
       find_game_exe lower (win_path [''C:'', ''Games'', ''Halo'']) (Dir es)
         = Some (win_path [''C:'', ''Games'', ''Halo'', ''Halo.exe''])"
    unfolding lower_on_ascii [OF ascii]
    using 1 2 3 by (simp del: win_path.simps)
qed

text \<open>
  With \<open>ascii_lower\<close> for \<open>lower\<close>: the folder \<open>Halo\<close> with its files enumerated in the
  order the specification lists them, and the folder \<open>Game4\<close> that holds a crash handler
  only, where steps 1 to 3 find nothing and step 4 takes the first candidate.
\<close>

theorem find_game_exe_heuristic_witness:
  "find_game_exe ascii_lower (win_path [''C:'', ''Games'', ''Halo''])
     (Dir [(str ''Halo.exe'', File), (str ''unitycrashhandler64.exe'', File),
           (str ''HaloLauncher.exe'', File)])
   = Some (win_path [''C:'', ''Games'', ''Halo'', ''Halo.exe'']) \<and>
   find_game_exe ascii_lower (win_path [''C:'', ''Games'', ''Game4''])
     (Dir [(str ''UnityCrashHandler64.exe'', File)])
   = Some (win_path [''C:'', ''Games'', ''Game4'', ''UnityCrashHandler64.exe''])"
proof
  have a: "\<forall>s. is_ascii s \<longrightarrow> ascii_lower s = ascii_lower s"
    by simp
  have m: "[(str ''Halo.exe'', File), (str ''unitycrashhandler64.exe'', File),
            (str ''HaloLauncher.exe'', File)]
        \<in> set [[(str ''Halo.exe'', File), (str ''unitycrashhandler64.exe'', File),
                  (str ''HaloLauncher.exe'', File)],
                 [(str ''Halo.exe'', File), (str ''HaloLauncher.exe'', File),
                  (str ''unitycrashhandler64.exe'', File)],
                 [(str ''unitycrashhandler64.exe'', File), (str ''Halo.exe'', File),
                  (str ''HaloLauncher.exe'', File)]]"
    by simp
  from find_game_exe_heuristic [of ascii_lower] a m
  show "find_game_exe ascii_lower (win_path [''C:'', ''Games'', ''Halo''])
     (Dir [(str ''Halo.exe'', File), (str ''unitycrashhandler64.exe'', File),
           (str ''HaloLauncher.exe'', File)])
   = Some (win_path [''C:'', ''Games'', ''Halo'', ''Halo.exe''])"
    by blast
next
  have "heuristic_spec ascii_lower (basename (win_path [''C:'', ''Games'', ''Game4'']))
          (exe_candidates ascii_lower (win_path [''C:'', ''Games'', ''Game4''])
             (Dir [(str ''UnityCrashHandler64.exe'', File)]))
        = Some (win_path [''C:'', ''Games'', ''Game4'', ''UnityCrashHandler64.exe''])"
    by code_simp
  with find_game_exe_heuristic [of ascii_lower]
  show "find_game_exe ascii_lower (win_path [''C:'', ''Games'', ''Game4''])
     (Dir [(str ''UnityCrashHandler64.exe'', File)])
   = Some (win_path [''C:'', ''Games'', ''Game4'', ''UnityCrashHandler64.exe''])"
    by simp
qed

lemma game2_launcher:
  "find_game_exe ascii_lower (win_path [''C:'', ''Games'', ''Game2''])
     (Dir [(str ''UnityCrashHandler64.exe'', File), (str ''Launcher.exe'', File)])
   = Some (win_path [''C:'', ''Games'', ''Game2'', ''Launcher.exe''])"
  by code_simp

lemma game3_first_not_excluded:
  "find_game_exe ascii_lower (win_path [''C:'', ''Games'', ''Game3''])
     (Dir [(str ''UnityCrashHandler64.exe'', File), (str ''foo.exe'', File)])
   = Some (win_path [''C:'', ''Games'', ''Game3'', ''foo.exe''])"
  by code_simp

text \<open>
  The same holds for every \<open>lower\<close> that does on ASCII strings what \<open>str.lower\<close> does
  there: with \<open>HaloLauncher.exe\<close> enumerated first, it is the one chosen.
\<close>

lemma halo_launcher_first_any_lower:
  assumes "\<forall>s. is_ascii s \<longrightarrow> lower s = ascii_lower s"
  shows "find_game_exe lower (win_path [''C:'', ''Games'', ''Halo''])
     (Dir [(str ''HaloLauncher.exe'', File), (str ''Halo.exe'', File),
           (str ''unitycrashhandler64.exe'', File)])
   = Some (win_path [''C:'', ''Games'', ''Halo'', ''HaloLauncher.exe''])"
proof -
  have "find_game_exe (\<lambda>s. if is_ascii s then ascii_lower s else lower s)
     (win_path [''C:'', ''Games'', ''Halo''])
     (Dir [(str ''HaloLauncher.exe'', File), (str ''Halo.exe'', File),
           (str ''unitycrashhandler64.exe'', File)])
   = Some (win_path [''C:'', ''Games'', ''Halo'', ''HaloLauncher.exe''])"
    by code_simp
  then show ?thesis
    unfolding lower_on_ascii [OF assms] .
qed

lemma collect_exes_append:
  "collect_exes lower (xs @ ys) = collect_exes lower xs @ collect_exes lower ys"
  by (induction xs) auto

lemma collect_exes_concat:
  "collect_exes lower (concat ws) = concat (map (collect_exes lower) ws)"
  by (induction ws) (simp_all add: collect_exes_append)

lemma exe_candidates_Dir:
  "exe_candidates lower p (Dir es) =
     map (path_join p) [f \<leftarrow> files_of es. endswith (lower f) (str ''.exe'')] @
     concat (map (\<lambda>(n, d). exe_candidates lower (path_join p n) d)
                 [(n, d) \<leftarrow> es. is_dir d \<and> \<not> is_link d])"
  by (simp add: exe_candidates_def collect_exes_concat comp_def case_prod_unfold)

lemma exe_candidates_simps:
  "exe_candidates lower p File = []"
  "exe_candidates lower p (Locked es) = []"
  "exe_candidates lower p (Link t) = exe_candidates lower p t"
  by (simp_all add: exe_candidates_def)

lemma concat_map_empty: "(concat (map f xs) = []) = (\<forall>x\<in>set xs. f x = [])"
  by (induction xs) auto

lemma exe_candidates_empty:
  "(exe_candidates lower p t = []) = (\<not> has_reachable_exe lower t)"
proof (induction p t rule: walk.induct)
  case (1 dirpath)
  show ?case by (simp add: exe_candidates_simps)
next
  case (2 dirpath es)
  show ?case by (simp add: exe_candidates_simps)
next
  case (3 dirpath t)
  then show ?case by (simp add: exe_candidates_simps)
next
  case (4 dirpath es)
  let ?sub = "[(n, d) \<leftarrow> es. is_dir d \<and> \<not> is_link d]"
  have sub: "(exe_candidates lower (path_join dirpath n) d = []) = (\<not> has_reachable_exe lower d)"
    if "(n, d) \<in> set ?sub" for n d
    using that by (rule 4) simp
  have same: "[e \<leftarrow> es. is_dir (snd e) \<and> \<not> is_link (snd e)] = ?sub"
    by (simp add: case_prod_unfold)
  have files: "([f \<leftarrow> files_of es. endswith (lower f) (str ''.exe'')] = []) =
      (\<not> list_ex (\<lambda>n. endswith (lower n) (str ''.exe'')) (files_of es))"
    by (simp add: filter_empty_conv list_ex_iff)
  have dirs: "(concat (map (\<lambda>(n, d). exe_candidates lower (path_join dirpath n) d) ?sub) = []) =
      (\<not> list_ex (has_reachable_exe lower) (map snd ?sub))"
  proof
    assume l: "concat (map (\<lambda>(n, d). exe_candidates lower (path_join dirpath n) d) ?sub) = []"
    have "\<not> has_reachable_exe lower d" if m: "(n, d) \<in> set ?sub" for n d
    proof -
      from l m have "exe_candidates lower (path_join dirpath n) d = []"
        unfolding concat_map_empty by fast
      with sub [OF m] show ?thesis by simp
    qed
    then show "\<not> list_ex (has_reachable_exe lower) (map snd ?sub)"
      unfolding list_ex_iff by fastforce
  next
    assume r: "\<not> list_ex (has_reachable_exe lower) (map snd ?sub)"
    have "exe_candidates lower (path_join dirpath n) d = []" if m: "(n, d) \<in> set ?sub" for n d
    proof -
      from r m have "\<not> has_reachable_exe lower d"
        unfolding list_ex_iff by force
      with sub [OF m] show ?thesis by simp
    qed
    then show "concat (map (\<lambda>(n, d). exe_candidates lower (path_join dirpath n) d) ?sub) = []"
      unfolding concat_map_empty by fast
  qed
  show ?case
    unfolding exe_candidates_Dir append_is_Nil_conv map_is_Nil_conv files dirs
      has_reachable_exe.simps same
    by blast
qed

lemma has_reachable_exe_has_exe: "has_reachable_exe lower t \<Longrightarrow> has_exe lower t"
proof (induction lower t rule: has_reachable_exe.induct)
  case (1 lower)
  then show ?case by simp
next
  case (2 lower es)
  then show ?case by simp
next
  case (3 lower t)
  then show ?case by simp
next
  case (4 lower es)
  show ?case
  proof (cases "list_ex (\<lambda>n. endswith (lower n) (str ''.exe'')) (files_of es)")
    case True
    then show ?thesis by simp
  next
    case False
    with "4.prems" have
      "list_ex (has_reachable_exe lower)
         (map snd [e \<leftarrow> es. is_dir (snd e) \<and> \<not> is_link (snd e)])"
      by simp
    then obtain d where
      d: "d \<in> set (map snd [e \<leftarrow> es. is_dir (snd e) \<and> \<not> is_link (snd e)])"
         "has_reachable_exe lower d"
      unfolding list_ex_iff by blast
    from "4.IH" [OF d] have "has_exe lower d" .
    moreover from d(1) have "d \<in> set (map snd es)" by auto
    ultimately show ?thesis by (auto simp: list_ex_iff)
  qed
qed

lemma collect_exes_mem:
  "c \<in> set (collect_exes lower w) \<Longrightarrow>
     \<exists>root files f. (root, files) \<in> set w \<and> f \<in> set files \<and>
        endswith (lower f) (str ''.exe'') \<and> c = path_join root f"
proof (induction lower w rule: collect_exes.induct)
  case (1 lower)
  then show ?case by simp
next
  case (2 lower root files rest)
  show ?case
  proof (cases "c \<in> set (collect_exes lower rest)")
    case True
    from "2.IH" [OF this] show ?thesis by auto
  next
    case False
    with "2.prems" obtain f where
      "f \<in> set files" "endswith (lower f) (str ''.exe'')" "c = path_join root f"
      by auto
    then show ?thesis by auto
  qed
qed

lemma select_exe_None: "(select_exe lower p cs = None) = (cs = [])"
  by (auto simp: select_exe_def Let_def split: list.splits option.splits)

lemma name_loop_mem: "name_loop lower fb cs = Some c \<Longrightarrow> c \<in> set cs"
  by (induction cs) (auto split: if_splits)

lemma launcher_loop_mem: "launcher_loop lower cs = Some c \<Longrightarrow> c \<in> set cs"
  by (induction cs) (auto split: if_splits)

lemma filter_Cons_mem: "filter P xs = y # ys \<Longrightarrow> y \<in> set xs"
proof -
  assume "filter P xs = y # ys"
  then have "y \<in> set (filter P xs)" by simp
  then show ?thesis by simp
qed

lemma select_exe_mem:
  assumes "select_exe lower p cs = Some c"
  shows "c \<in> set cs"
proof (cases cs)
  case Nil
  with assms show ?thesis by (simp add: select_exe_def)
next
  case (Cons first rest)
  show ?thesis
  proof (cases "name_loop lower (lower (basename p)) cs")
    case (Some a)
    with assms Cons have "a = c" by (simp add: select_exe_def)
    with Some show ?thesis by (auto dest: name_loop_mem)
  next
    case None
    note n1 = this
    show ?thesis
    proof (cases "launcher_loop lower cs")
      case (Some a)
      with assms Cons n1 have "a = c" by (simp add: select_exe_def)
      with Some show ?thesis by (auto dest: launcher_loop_mem)
    next
      case None
      show ?thesis
      proof (cases "[c \<leftarrow> cs. \<not> excluded lower c]")
        case Nil
        with assms Cons n1 None have "c = first" by (simp add: select_exe_def)
        with Cons show ?thesis by simp
      next
        case (Cons a list)
        with assms \<open>cs = first # rest\<close> n1 None have "a = c" by (simp add: select_exe_def)
        with Cons show ?thesis by (auto dest: filter_Cons_mem)
      qed
    qed
  qed
qed

text \<open>
  A folder whose only executable lies in a sub-directory that the process may not list:
  \<open>os.walk\<close> skips that sub-directory without raising, so the chooser returns nothing
  although a file with a name ending in \<open>.exe\<close> lies beneath the folder.
\<close>

theorem find_game_exe_none_counterexample:
  "find_game_exe ascii_lower (win_path [''C:'', ''Games'', ''Halo''])
     (Dir [(str ''readme.txt'', File), (str ''bin'', Locked [(str ''Halo.exe'', File)])]) = None \<and>
   has_exe ascii_lower
     (Dir [(str ''readme.txt'', File), (str ''bin'', Locked [(str ''Halo.exe'', File)])])"
  by code_simp

text \<open>
  C10, as amended: the chooser returns nothing exactly when no file with a name ending
  in \<open>.exe\<close> (in any letter case) lies in a directory that the walk from the folder
  enters; directories that cannot be listed and sub-directories that are symbolic links
  are skipped silently, with whatever lies beneath them. A path it returns is one of the
  enumerated candidates: the path of a file found by the walk whose lower-cased name ends
  in \<open>.exe\<close>. So whenever it returns a path, such a file does lie beneath the folder.
\<close>

theorem find_game_exe_result:
  "(find_game_exe lower folder_path folder = None) = (\<not> has_reachable_exe lower folder) \<and>
   (\<forall>c. find_game_exe lower folder_path folder = Some c \<longrightarrow>
        c \<in> set (exe_candidates lower folder_path folder) \<and>
        (\<exists>root files f. (root, files) \<in> set (walk folder_path folder) \<and> f \<in> set files \<and>
           endswith (lower f) (str ''.exe'') \<and> c = path_join root f) \<and>
        has_exe lower folder)"
proof (intro conjI allI impI)
  show none: "(find_game_exe lower folder_path folder = None) = (\<not> has_reachable_exe lower folder)"
    by (simp add: find_game_exe_def select_exe_None exe_candidates_empty)
  fix c
  assume some: "find_game_exe lower folder_path folder = Some c"
  then show mem: "c \<in> set (exe_candidates lower folder_path folder)"
    unfolding find_game_exe_def by (rule select_exe_mem)
  then show "\<exists>root files f. (root, files) \<in> set (walk folder_path folder) \<and> f \<in> set files \<and>
           endswith (lower f) (str ''.exe'') \<and> c = path_join root f"
    unfolding exe_candidates_def by (rule collect_exes_mem)
  from some none have "has_reachable_exe lower folder" by simp
  then show "has_exe lower folder" by (rule has_reachable_exe_has_exe)
qed

text \<open>
  With \<open>ascii_lower\<close> for \<open>lower\<close>: a folder with a text file, a locked directory and a
  link to a directory, each hiding an executable, yields nothing; with a listable
  sub-folder holding \<open>Game.EXE\<close> and a crash handler, the chooser returns the path of
  \<open>Game.EXE\<close>, one of the candidates.
\<close>

theorem find_game_exe_result_witness:
  "find_game_exe ascii_lower (str ''D:/G/Game'')
     (Dir [(str ''readme.txt'', File), (str ''a'', Locked [(str ''x.exe'', File)]),
           (str ''b'', Link (Dir [(str ''y.exe'', File)]))]) = None \<and>
   find_game_exe ascii_lower (str ''D:/G/Game'')
     (Dir [(str ''readme.txt'', File),
           (str ''bin'', Dir [(str ''UnityCrashHandler64.exe'', File), (str ''Game.EXE'', File)])])
     = Some (str ''D:/G/Game'' @ backslash # str ''bin'' @ backslash # str ''Game.EXE'') \<and>
   (str ''D:/G/Game'' @ backslash # str ''bin'' @ backslash # str ''Game.EXE'')
     \<in> set (exe_candidates ascii_lower (str ''D:/G/Game'')
         (Dir [(str ''readme.txt'', File),
               (str ''bin'', Dir [(str ''UnityCrashHandler64.exe'', File),
                                  (str ''Game.EXE'', File)])]))"
proof -
  let ?t1 = "Dir [(str ''readme.txt'', File), (str ''a'', Locked [(str ''x.exe'', File)]),
           (str ''b'', Link (Dir [(str ''y.exe'', File)]))]"
  let ?t2 = "Dir [(str ''readme.txt'', File),
           (str ''bin'', Dir [(str ''UnityCrashHandler64.exe'', File), (str ''Game.EXE'', File)])]"
  have a: "\<not> has_reachable_exe ascii_lower ?t1"
    by code_simp
  have b: "find_game_exe ascii_lower (str ''D:/G/Game'') ?t2
     = Some (str ''D:/G/Game'' @ backslash # str ''bin'' @ backslash # str ''Game.EXE'')"
    by code_simp
  from a b show ?thesis
    using find_game_exe_result [of ascii_lower "str ''D:/G/Game''" ?t1]
      find_game_exe_result [of ascii_lower "str ''D:/G/Game''" ?t2]
    by blast
qed

text \<open>
  For every \<open>lower\<close> that does on ASCII strings what \<open>str.lower\<close> does there, the
  folder whose only executable lies in a directory that cannot be listed yields nothing.
\<close>

lemma locked_exe_not_found_any_lower:
  assumes "\<forall>s. is_ascii s \<longrightarrow> lower s = ascii_lower s"
  shows "find_game_exe lower (win_path [''C:'', ''Games'', ''Halo''])
     (Dir [(str ''readme.txt'', File), (str ''bin'', Locked [(str ''Halo.exe'', File)])]) = None \<and>
   has_exe lower
     (Dir [(str ''readme.txt'', File), (str ''bin'', Locked [(str ''Halo.exe'', File)])])"
proof
  let ?l = "\<lambda>s. if is_ascii s then ascii_lower s else lower s"
  let ?t = "Dir [(str ''readme.txt'', File), (str ''bin'', Locked [(str ''Halo.exe'', File)])]"
  have "find_game_exe ?l (win_path [''C:'', ''Games'', ''Halo'']) ?t = None"
    by code_simp
  then show "find_game_exe lower (win_path [''C:'', ''Games'', ''Halo'']) ?t = None"
    unfolding lower_on_ascii [OF assms] .
  have b: "has_exe ?l ?t"
    by code_simp
  have eq: "has_exe lower ?t = has_exe ?l ?t"
    by (rule arg_cong [where f = "\<lambda>l. has_exe l ?t"]) (rule lower_ascii_fun [OF assms])
  show "has_exe lower ?t"
    by (subst eq) (rule b)
qed

section \<open>Properties of loading and saving\<close>




lemma load_entry_game_dict: "load_entry (game_dict g) = Inr g"
  by (simp add: game_dict_def to_dict_def new_entry_def dict_get_def)

lemma load_entries_games:
  "load_entries (map game_dict gs) st = (None, st\<lparr>games := games st @ gs\<rparr>)"
proof (induction gs arbitrary: st)
  case Nil
  show ?case by simp
next
  case (Cons g gs)
  show ?case by (simp add: load_entry_game_dict Cons.IH)
qed

lemma slider_setValue_in_range:
  assumes "bg_blur_amount st = JInt b" and "0 \<le> b" and "b \<le> 20"
  shows "\<exists>st'. slider_setValue st b = Inr st' \<and>
         games st' = games st \<and>
         custom_scan_folders st' = custom_scan_folders st \<and>
         custom_background_path st' = custom_background_path st \<and>
         bg_blur_amount st' = JInt b"
  using assms
  by (simp add: slider_setValue_def c_int_def set_background_blur_def save_games_def Let_def)

lemma load_body_document:
  assumes "bg_blur_amount st = JInt b" and "0 \<le> b" and "b \<le> 20"
  shows "\<exists>st'. load_body (document st) st0 = (None, st') \<and>
           games st' = games st \<and>
           custom_scan_folders st' = custom_scan_folders st \<and>
           custom_background_path st' = custom_background_path st \<and>
           bg_blur_amount st' = bg_blur_amount st"
proof -
  let ?st3 = "st0\<lparr>games := games st,
                  custom_scan_folders := custom_scan_folders st,
                  custom_background_path := custom_background_path st,
                  bg_blur_amount := JInt b\<rparr>"
  have "bg_blur_amount ?st3 = JInt b" by simp
  from slider_setValue_in_range [OF this assms(2,3)]
  obtain st4 where st4: "slider_setValue ?st3 b = Inr st4" "games st4 = games st"
      "custom_scan_folders st4 = custom_scan_folders st"
      "custom_background_path st4 = custom_background_path st"
      "bg_blur_amount st4 = JInt b"
    by auto
  have "load_body (document st) st0 = (None, st4)"
    using assms(1) st4(1)
    by (simp add: load_body_def document_def dict_get_def load_entries_games Let_def)
  with st4 assms(1) show ?thesis by simp
qed

text \<open>
  C2: loading the file that saving a catalog document produced reproduces the
  document: the same records with the same field values in the same order, the same
  scan-folder list, the same background path and the same blur value. A catalog document
  has a blur value that is an integer from 0 to 20; \<open>st\<close> holds the document saved and
  \<open>st0\<close> is the launcher that loads the file.
\<close>

theorem load_save_roundtrip:
  assumes "file_writable st"
    and "bg_blur_amount st = JInt b" and "0 \<le> b" and "b \<le> 20"
  shows "games_file (save_games st) = Json (document st) \<and>
         games (load_games (st0\<lparr>games_file := games_file (save_games st)\<rparr>)) = games st \<and>
         custom_scan_folders (load_games (st0\<lparr>games_file := games_file (save_games st)\<rparr>))
           = custom_scan_folders st \<and>
         custom_background_path (load_games (st0\<lparr>games_file := games_file (save_games st)\<rparr>))
           = custom_background_path st \<and>
         bg_blur_amount (load_games (st0\<lparr>games_file := games_file (save_games st)\<rparr>))
           = bg_blur_amount st"
proof -
  have saved: "games_file (save_games st) = Json (document st)"
    using assms(1) by (simp add: save_games_def)
  obtain st' where st': "load_body (document st) (st0\<lparr>games_file := Json (document st)\<rparr>) = (None, st')"
      "games st' = games st" "custom_scan_folders st' = custom_scan_folders st"
      "custom_background_path st' = custom_background_path st"
      "bg_blur_amount st' = bg_blur_amount st"
    using load_body_document [OF assms(2-4)] by blast
  have "load_games (st0\<lparr>games_file := Json (document st)\<rparr>) = st'"
    using st'(1) by (simp add: load_games_def)
  with saved st' show ?thesis by simp
qed

text \<open>
  A catalog with one played, favourite record, a scan folder, a background and blur 7,
  saved and then loaded by a freshly started launcher.
\<close>

theorem load_save_roundtrip_witness:
  "games (startup (games_file (save_games
      \<lparr>games = [\<lparr>name = JStr (str ''Halo''), path = JStr (str ''C:/Games/Halo/Halo.exe''),
                  icon_path = JNull, is_favorite = JBool True, notes = JStr (str ''co-op''),
                  last_played = JStr (str ''2024-05-01 20:15:00''),
                  total_playtime = JInt 125\<rparr>],
        custom_scan_folders = JList [JStr (str ''D:/Games'')],
        custom_background_path = JStr (str ''D:/bg.png''),
        bg_blur_amount = JInt 7, slider_value = 7, games_file = Missing,
        file_writable = True, messages = []\<rparr>)) True)
   = [\<lparr>name = JStr (str ''Halo''), path = JStr (str ''C:/Games/Halo/Halo.exe''),
       icon_path = JNull, is_favorite = JBool True, notes = JStr (str ''co-op''),
       last_played = JStr (str ''2024-05-01 20:15:00''), total_playtime = JInt 125\<rparr>] \<and>
   custom_scan_folders (startup (games_file (save_games
      \<lparr>games = [\<lparr>name = JStr (str ''Halo''), path = JStr (str ''C:/Games/Halo/Halo.exe''),
                  icon_path = JNull, is_favorite = JBool True, notes = JStr (str ''co-op''),
                  last_played = JStr (str ''2024-05-01 20:15:00''),
                  total_playtime = JInt 125\<rparr>],
        custom_scan_folders = JList [JStr (str ''D:/Games'')],
        custom_background_path = JStr (str ''D:/bg.png''),
        bg_blur_amount = JInt 7, slider_value = 7, games_file = Missing,
        file_writable = True, messages = []\<rparr>)) True)
   = JList [JStr (str ''D:/Games'')] \<and>
   bg_blur_amount (startup (games_file (save_games
      \<lparr>games = [\<lparr>name = JStr (str ''Halo''), path = JStr (str ''C:/Games/Halo/Halo.exe''),
                  icon_path = JNull, is_favorite = JBool True, notes = JStr (str ''co-op''),
                  last_played = JStr (str ''2024-05-01 20:15:00''),
                  total_playtime = JInt 125\<rparr>],
        custom_scan_folders = JList [JStr (str ''D:/Games'')],
        custom_background_path = JStr (str ''D:/bg.png''),
        bg_blur_amount = JInt 7, slider_value = 7, games_file = Missing,
        file_writable = True, messages = []\<rparr>)) True)
   = JInt 7"
proof -
  let ?st = "\<lparr>games = [\<lparr>name = JStr (str ''Halo''), path = JStr (str ''C:/Games/Halo/Halo.exe''),
                  icon_path = JNull, is_favorite = JBool True, notes = JStr (str ''co-op''),
                  last_played = JStr (str ''2024-05-01 20:15:00''),
                  total_playtime = JInt 125\<rparr>],
        custom_scan_folders = JList [JStr (str ''D:/Games'')],
        custom_background_path = JStr (str ''D:/bg.png''),
        bg_blur_amount = JInt 7, slider_value = 7, games_file = Missing,
        file_writable = True, messages = []\<rparr>"
  have w: "file_writable ?st" by simp
  have b: "bg_blur_amount ?st = JInt 7" by simp
  have eq: "startup f True = load_games ((init_state Missing True)\<lparr>games_file := f\<rparr>)" for f
    by (simp add: startup_def init_state_def)
  have lo: "(0::int) \<le> 7" and hi: "(7::int) \<le> 20" by simp_all
  have sel: "games ?st = [\<lparr>name = JStr (str ''Halo''), path = JStr (str ''C:/Games/Halo/Halo.exe''),
       icon_path = JNull, is_favorite = JBool True, notes = JStr (str ''co-op''),
       last_played = JStr (str ''2024-05-01 20:15:00''), total_playtime = JInt 125\<rparr>]"
    "custom_scan_folders ?st = JList [JStr (str ''D:/Games'')]"
    by simp_all
  have r: "games (startup (games_file (save_games ?st)) True) = games ?st \<and>
           custom_scan_folders (startup (games_file (save_games ?st)) True)
             = custom_scan_folders ?st \<and>
           bg_blur_amount (startup (games_file (save_games ?st)) True) = bg_blur_amount ?st"
    unfolding eq
    using load_save_roundtrip [OF w b lo hi, of "init_state Missing True"] by blast
  show ?thesis
    using r unfolding sel b by blast
qed

lemma load_entries_prefix:
  "load_entries xs st = (r, st') \<Longrightarrow>
     st' = st\<lparr>games := games st @
                  map (\<lambda>x. projr (load_entry x)) (takeWhile (\<lambda>x. \<not> isl (load_entry x)) xs)\<rparr>"
proof (induction xs arbitrary: st)
  case Nil
  then show ?case by simp
next
  case (Cons x xs)
  show ?case
  proof (cases "load_entry x")
    case (Inl e)
    with Cons.prems show ?thesis by simp
  next
    case (Inr g)
    with Cons.prems have "load_entries xs (st\<lparr>games := games st @ [g]\<rparr>) = (r, st')"
      by simp
    from Cons.IH [OF this] Inr show ?thesis by simp
  qed
qed

lemma load_body_failure:
  assumes "load_body data st = (Some e, st')"
  shows "games_file st' = games_file st \<and> messages st' = messages st \<and>
         file_writable st' = file_writable st \<and> slider_value st' = slider_value st"
proof (cases data)
  case (JObj d)
  show ?thesis
  proof (cases "py_iter (dict_get d (str ''games'') (JList []))")
    case None
    with assms JObj show ?thesis by (auto simp: load_body_def)
  next
    case (Some xs)
    obtain r st2 where l: "load_entries xs (st\<lparr>games := []\<rparr>) = (r, st2)"
      by (cases "load_entries xs (st\<lparr>games := []\<rparr>)")
    from load_entries_prefix [OF l]
    have st2: "games_file st2 = games_file st" "messages st2 = messages st"
        "file_writable st2 = file_writable st" "slider_value st2 = slider_value st"
      by simp_all
    from assms JObj Some l st2 show ?thesis
      by (auto simp: load_body_def Let_def split: option.splits sum.splits)
  qed
qed (use assms in \<open>auto simp: load_body_def\<close>)

lemma load_body_failure_games:
  assumes "load_body (JObj d) st = (Some e, st')"
    and "py_iter (dict_get d (str ''games'') (JList [])) = Some xs"
  shows "games st' =
           map (\<lambda>x. projr (load_entry x)) (takeWhile (\<lambda>x. \<not> isl (load_entry x)) xs)"
proof -
  obtain r st2 where l: "load_entries xs (st\<lparr>games := []\<rparr>) = (r, st2)"
    by (cases "load_entries xs (st\<lparr>games := []\<rparr>)")
  from load_entries_prefix [OF l]
  have "games st2 =
          map (\<lambda>x. projr (load_entry x)) (takeWhile (\<lambda>x. \<not> isl (load_entry x)) xs)"
    by simp
  with assms l show ?thesis
    by (auto simp: load_body_def Let_def split: option.splits sum.splits)
qed

text \<open>
  A backing file that is valid JSON but whose second games entry has no path makes
  \<open>load_games\<close> fail after the first record has been appended: at startup the error is
  reported and the catalog holds one record, so the document is not empty.
\<close>

theorem load_failure_partial_counterexample:
  "messages (startup (Json (JObj [(str ''games'',
       JList [JObj [(str ''name'', JStr (str ''A'')), (str ''path'', JStr (str ''C:/A/a.exe''))],
              JObj [(str ''name'', JStr (str ''B''))]])])) True) = [LoadFailed KeyError] \<and>
   games (startup (Json (JObj [(str ''games'',
       JList [JObj [(str ''name'', JStr (str ''A'')), (str ''path'', JStr (str ''C:/A/a.exe''))],
              JObj [(str ''name'', JStr (str ''B''))]])])) True) \<noteq> []"
  by (simp add: startup_def init_state_def load_games_def load_body_def load_warning_def
      dict_get_def new_entry_def)

text \<open>
  C7, as amended: when the backing file cannot be opened or is not valid JSON,
  \<open>load_games\<close> reports the error and changes nothing else, neither the catalog in memory
  (empty at startup) nor the file. When the file is valid JSON and loading raises
  further on, \<open>load_games\<close> reports the error and leaves the file as it is, and the
  catalog holds the records of the games entries that precede the first malformed one.
\<close>

theorem load_games_failure:
  "(games_file st = Unreadable \<or> games_file st = NotJson \<longrightarrow>
      (\<exists>e. load_games st = st\<lparr>messages := messages st @ [LoadFailed e]\<rparr>)) \<and>
   (\<forall>data e st'. games_file st = Json data \<and> load_body data st = (Some e, st') \<longrightarrow>
      messages (load_games st) = messages st @ [LoadFailed e] \<and>
      games_file (load_games st) = games_file st \<and>
      (\<forall>d xs. data = JObj d \<and> py_iter (dict_get d (str ''games'') (JList [])) = Some xs \<longrightarrow>
         games (load_games st) =
           map (\<lambda>x. projr (load_entry x)) (takeWhile (\<lambda>x. \<not> isl (load_entry x)) xs)))"
proof (intro conjI allI impI)
  assume "games_file st = Unreadable \<or> games_file st = NotJson"
  then show "\<exists>e. load_games st = st\<lparr>messages := messages st @ [LoadFailed e]\<rparr>"
    by (auto simp: load_games_def load_warning_def)
next
  fix data e st'
  assume a: "games_file st = Json data \<and> load_body data st = (Some e, st')"
  then have lg: "load_games st = load_warning e st'"
    by (simp add: load_games_def)
  from a load_body_failure [of data st e st']
  have same: "games_file st' = games_file st" "messages st' = messages st"
    by simp_all
  show "messages (load_games st) = messages st @ [LoadFailed e]"
    by (simp add: lg load_warning_def same)
  show "games_file (load_games st) = games_file st"
    by (simp add: lg load_warning_def same)
  fix d xs
  assume b: "data = JObj d \<and> py_iter (dict_get d (str ''games'') (JList [])) = Some xs"
  with a have "games st' =
      map (\<lambda>x. projr (load_entry x)) (takeWhile (\<lambda>x. \<not> isl (load_entry x)) xs)"
    using load_body_failure_games [of d st e st' xs] by simp
  then show "games (load_games st) =
      map (\<lambda>x. projr (load_entry x)) (takeWhile (\<lambda>x. \<not> isl (load_entry x)) xs)"
    by (simp add: lg load_warning_def)
qed

text \<open>
  At startup with a file that is not JSON the launcher is in its initial state, with an
  empty catalog, one error reported and the file untouched; with the file of the
  counterexample the error is reported, the file is untouched and the catalog holds the
  record of the first entry.
\<close>

theorem load_games_failure_witness:
  "startup NotJson True = (init_state NotJson True)\<lparr>messages := [LoadFailed JSONDecodeError]\<rparr> \<and>
   games (startup NotJson True) = [] \<and>
   games_file (startup (Json (JObj [(str ''games'',
       JList [JObj [(str ''name'', JStr (str ''A'')), (str ''path'', JStr (str ''C:/A/a.exe''))],
              JObj [(str ''name'', JStr (str ''B''))]])])) True)
     = Json (JObj [(str ''games'',
       JList [JObj [(str ''name'', JStr (str ''A'')), (str ''path'', JStr (str ''C:/A/a.exe''))],
              JObj [(str ''name'', JStr (str ''B''))]])]) \<and>
   games (startup (Json (JObj [(str ''games'',
       JList [JObj [(str ''name'', JStr (str ''A'')), (str ''path'', JStr (str ''C:/A/a.exe''))],
              JObj [(str ''name'', JStr (str ''B''))]])])) True)
     = [new_entry (JStr (str ''A'')) (JStr (str ''C:/A/a.exe'')) JNull]"
proof -
  let ?xs = "[JObj [(str ''name'', JStr (str ''A'')), (str ''path'', JStr (str ''C:/A/a.exe''))],
              JObj [(str ''name'', JStr (str ''B''))]]"
  let ?d = "[(str ''games'', JList ?xs)]"
  let ?s1 = "init_state NotJson True"
  let ?s2 = "init_state (Json (JObj ?d)) True"
  let ?st' = "?s2\<lparr>games := [new_entry (JStr (str ''A'')) (JStr (str ''C:/A/a.exe'')) JNull]\<rparr>"
  have f1: "games_file ?s1 = Unreadable \<or> games_file ?s1 = NotJson"
    by (simp add: init_state_def)
  with load_games_failure [of ?s1]
  obtain e where e: "load_games ?s1 = ?s1\<lparr>messages := messages ?s1 @ [LoadFailed e]\<rparr>"
    by blast
  have "load_games ?s1 = load_warning JSONDecodeError ?s1"
    by (simp add: load_games_def init_state_def)
  with e have p1: "startup NotJson True = ?s1\<lparr>messages := [LoadFailed JSONDecodeError]\<rparr>"
    by (simp add: startup_def load_warning_def init_state_def)
  have f2: "games_file ?s2 = Json (JObj ?d)"
    by (simp add: init_state_def)
  have body: "load_body (JObj ?d) ?s2 = (Some KeyError, ?st')"
    by (simp add: load_body_def init_state_def dict_get_def new_entry_def)
  have it: "py_iter (dict_get ?d (str ''games'') (JList [])) = Some ?xs"
    by (simp add: dict_get_def)
  from load_games_failure [of ?s2] f2 body it
  have "games_file (load_games ?s2) = games_file ?s2"
    and "games (load_games ?s2) =
      map (\<lambda>x. projr (load_entry x)) (takeWhile (\<lambda>x. \<not> isl (load_entry x)) ?xs)"
    by blast+
  then have p2: "games_file (startup (Json (JObj ?d)) True) = Json (JObj ?d)"
    and p3: "games (startup (Json (JObj ?d)) True)
               = [new_entry (JStr (str ''A'')) (JStr (str ''C:/A/a.exe'')) JNull]"
    by (simp_all add: startup_def f2 dict_get_def new_entry_def)
  from p1 have p0: "games (startup NotJson True) = []"
    by (simp add: init_state_def)
  from p1 p0 p2 p3 show ?thesis by blast
qed

text \<open>
  A stored blur of \<open>2^31\<close> does not fit the C \<open>int\<close> that \<open>setValue\<close> takes: loading
  fails after everything has been assigned, the error is reported, the stored value stays
  in memory and the file is not rewritten.
\<close>

lemma load_blur_overflow:
  "messages (startup (Json (JObj [(str ''custom_background_blur'', JInt 2147483648)])) True)
     = [LoadFailed OverflowError] \<and>
   bg_blur_amount (startup (Json (JObj [(str ''custom_background_blur'', JInt 2147483648)])) True)
     = JInt 2147483648 \<and>
   games_file (startup (Json (JObj [(str ''custom_background_blur'', JInt 2147483648)])) True)
     = Json (JObj [(str ''custom_background_blur'', JInt 2147483648)])"
  by (simp add: startup_def init_state_def load_games_def load_body_def load_warning_def
      dict_get_def slider_setValue_def c_int_def)

section \<open>The blur value\<close>

lemma slider_setValue_sets:
  assumes "slider_setValue st v = Inr st'"
  shows "st' = st \<or>
         (\<exists>b. bg_blur_amount st' = JInt b \<and> 0 \<le> b \<and> b \<le> 20 \<and> slider_value st' = b)"
proof (cases "max 0 (min 20 v) = slider_value st")
  case True
  with assms show ?thesis
    by (simp add: slider_setValue_def split: if_splits)
next
  case False
  with assms have "st' = set_background_blur (st\<lparr>slider_value := max 0 (min 20 v)\<rparr>)
                            (max 0 (min 20 v))"
    by (simp add: slider_setValue_def Let_def split: if_splits)
  then have "bg_blur_amount st' = JInt (max 0 (min 20 v))"
    and "slider_value st' = max 0 (min 20 v)"
    by (simp_all add: set_background_blur_def save_games_def)
  then show ?thesis by simp
qed

lemma slider_setValue_from_zero:
  assumes "slider_value st = 0" and "bg_blur_amount st = JInt b" and "0 \<le> b" and "c_int b"
  shows "\<exists>st'. slider_setValue st b = Inr st' \<and>
           (\<exists>b'. bg_blur_amount st' = JInt b' \<and> 0 \<le> b' \<and> b' \<le> 20 \<and> slider_value st' = b')"
proof (cases "min 20 b = 0")
  case True
  with assms have "b = 0" by simp
  with assms show ?thesis by (simp add: slider_setValue_def)
next
  case False
  with assms have ne: "max 0 (min 20 b) \<noteq> slider_value st" by simp
  with assms(4) have "slider_setValue st b =
      Inr (set_background_blur (st\<lparr>slider_value := max 0 (min 20 b)\<rparr>) (max 0 (min 20 b)))"
    by (simp add: slider_setValue_def Let_def)
  then show ?thesis
    by (simp add: set_background_blur_def save_games_def)
qed

lemma load_entries_other_fields:
  "load_entries xs st = (r, st') \<Longrightarrow>
     bg_blur_amount st' = bg_blur_amount st \<and> slider_value st' = slider_value st"
proof (induction xs arbitrary: st)
  case Nil
  then show ?case by simp
next
  case (Cons x xs)
  show ?case
  proof (cases "load_entry x")
    case (Inl e)
    with Cons.prems show ?thesis by simp
  next
    case (Inr g)
    with Cons.prems have "load_entries xs (st\<lparr>games := games st @ [g]\<rparr>) = (r, st')"
      by simp
    from Cons.IH [OF this] show ?thesis by simp
  qed
qed

lemma load_body_blur:
  assumes "slider_value st = 0" and "bg_blur_amount st = JInt 0"
    and "dict_get d (str ''custom_background_blur'') (JInt 0) = JInt b" and "0 \<le> b"
    and "c_int b"
    and "load_body (JObj d) st = (r, st')"
  shows "\<exists>b'. bg_blur_amount st' = JInt b' \<and> 0 \<le> b' \<and> b' \<le> 20 \<and> slider_value st' = b'"
proof (cases "py_iter (dict_get d (str ''games'') (JList []))")
  case None
  with assms show ?thesis by (auto simp: load_body_def)
next
  case (Some xs)
  obtain r2 st2 where l: "load_entries xs (st\<lparr>games := []\<rparr>) = (r2, st2)"
    by (cases "load_entries xs (st\<lparr>games := []\<rparr>)")
  from load_entries_other_fields [OF l] assms(1,2)
  have st2: "bg_blur_amount st2 = JInt 0" "slider_value st2 = 0" by simp_all
  show ?thesis
  proof (cases r2)
    case (Some e)
    with assms(6) \<open>py_iter _ = Some xs\<close> l have "st' = st2"
      by (simp add: load_body_def)
    with st2 show ?thesis by simp
  next
    case None
    let ?st3 = "st2\<lparr>custom_scan_folders := dict_get d (str ''custom_scan_folders'') (JList []),
                    custom_background_path := dict_get d (str ''custom_background_path'') JNull,
                    bg_blur_amount := JInt b\<rparr>"
    have "slider_value ?st3 = 0" "bg_blur_amount ?st3 = JInt b"
      using st2 by simp_all
    from slider_setValue_from_zero [OF this assms(4,5)]
    obtain st4 where st4: "slider_setValue ?st3 b = Inr st4"
        "\<exists>b'. bg_blur_amount st4 = JInt b' \<and> 0 \<le> b' \<and> b' \<le> 20 \<and> slider_value st4 = b'"
      by blast
    from None assms(3,6) \<open>py_iter _ = Some xs\<close> l st4(1) have "st' = st4"
      by (simp add: load_body_def Let_def)
    with st4(2) show ?thesis by simp
  qed
qed

text \<open>
  A backing file whose stored blur is \<open>-5\<close>: \<open>load_games\<close> assigns the stored value, the
  slider bounds it to 0, which is the value the slider already holds, so no signal
  corrects the attribute, and the blur value after startup is outside the range 0 to 20.
\<close>

theorem blur_range_counterexample:
  "\<not> (\<exists>b. bg_blur_amount
            (startup (Json (JObj [(str ''custom_background_blur'', JInt (- 5))])) True)
            = JInt b \<and> 0 \<le> b \<and> b \<le> 20)"
  by (simp add: startup_def init_state_def load_games_def load_body_def dict_get_def
      slider_setValue_def c_int_def)

text \<open>
  C9, as amended: a slider input either sets nothing (the slider bounds the input to
  the value it already holds, or the input is no C \<open>int\<close>) or sets the blur value to an
  integer from 0 to 20, whatever the state before. After startup the blur value is an
  integer from 0 to 20 that agrees with the slider, provided the backing file stores no
  blur or stores an integer from 0 to \<open>2^31 - 1\<close> (one above 20 is lowered to 20 by the
  slider). \<open>load_games\<close> itself does not validate the stored value: a negative one, or one
  beyond the range of a C \<open>int\<close>, stays in memory as it is.
\<close>

theorem blur_in_range:
  "(\<forall>st'. slider_setValue st v = Inr st' \<longrightarrow>
       st' = st \<or>
       (\<exists>b. bg_blur_amount st' = JInt b \<and> 0 \<le> b \<and> b \<le> 20 \<and> slider_value st' = b)) \<and>
   ((\<forall>d. f = Json (JObj d) \<longrightarrow>
          (\<exists>b. dict_get d (str ''custom_background_blur'') (JInt 0) = JInt b \<and> 0 \<le> b \<and>
               c_int b)) \<longrightarrow>
      (\<exists>b. bg_blur_amount (startup f w) = JInt b \<and> 0 \<le> b \<and> b \<le> 20 \<and>
           slider_value (startup f w) = b))"
proof (intro conjI impI allI)
  fix st'
  assume "slider_setValue st v = Inr st'"
  then show "st' = st \<or>
       (\<exists>b. bg_blur_amount st' = JInt b \<and> 0 \<le> b \<and> b \<le> 20 \<and> slider_value st' = b)"
    by (rule slider_setValue_sets)
next
  assume stored: "\<forall>d. f = Json (JObj d) \<longrightarrow>
          (\<exists>b. dict_get d (str ''custom_background_blur'') (JInt 0) = JInt b \<and> 0 \<le> b \<and>
               c_int b)"
  let ?i = "init_state f w"
  have i: "slider_value ?i = 0" "bg_blur_amount ?i = JInt 0" "games_file ?i = f"
    by (simp_all add: init_state_def)
  show "\<exists>b. bg_blur_amount (startup f w) = JInt b \<and> 0 \<le> b \<and> b \<le> 20 \<and>
           slider_value (startup f w) = b"
  proof (cases f)
    case Missing
    with i show ?thesis
      by (simp add: startup_def load_games_def save_games_def)
  next
    case Unreadable
    with i show ?thesis
      by (simp add: startup_def load_games_def load_warning_def)
  next
    case NotJson
    with i show ?thesis
      by (simp add: startup_def load_games_def load_warning_def)
  next
    case (Json data)
    obtain r st' where body: "load_body data ?i = (r, st')"
      by (cases "load_body data ?i")
    have inv: "\<exists>b. bg_blur_amount st' = JInt b \<and> 0 \<le> b \<and> b \<le> 20 \<and> slider_value st' = b"
    proof (cases "\<exists>d. data = JObj d")
      case True
      then obtain d where d: "data = JObj d" by blast
      with stored Json obtain b where
        "dict_get d (str ''custom_background_blur'') (JInt 0) = JInt b" "0 \<le> b" "c_int b"
        by blast
      with load_body_blur [OF i(1,2) this] body d show ?thesis by simp
    next
      case False
      with body have "st' = ?i\<lparr>games := []\<rparr>"
        by (cases data) (auto simp: load_body_def)
      with i show ?thesis by simp
    qed
    have "bg_blur_amount (startup f w) = bg_blur_amount st'"
      and "slider_value (startup f w) = slider_value st'"
      using Json body i(3)
      by (cases r; simp add: startup_def load_games_def load_warning_def)+
    with inv show ?thesis by simp
  qed
qed

text \<open>
  The launcher started on a file that stores blur 25 holds blur 20, and the slider moved
  to 33 afterwards sets nothing, so the blur stays 20; moved to 4 it sets blur 4.
\<close>

theorem blur_in_range_witness:
  "bg_blur_amount (startup (Json (JObj [(str ''custom_background_blur'', JInt 25)])) True)
     = JInt 20 \<and>
   (\<exists>b. bg_blur_amount (startup (Json (JObj [(str ''custom_background_blur'', JInt 25)])) True)
          = JInt b \<and> 0 \<le> b \<and> b \<le> 20 \<and>
        slider_value (startup (Json (JObj [(str ''custom_background_blur'', JInt 25)])) True)
          = b) \<and>
   slider_setValue (startup (Json (JObj [(str ''custom_background_blur'', JInt 25)])) True) 33
     = Inr (startup (Json (JObj [(str ''custom_background_blur'', JInt 25)])) True) \<and>
   (\<exists>st'. slider_setValue
            (startup (Json (JObj [(str ''custom_background_blur'', JInt 25)])) True) 4 = Inr st' \<and>
          (\<exists>b. bg_blur_amount st' = JInt b \<and> 0 \<le> b \<and> b \<le> 20 \<and> slider_value st' = b))"
proof -
  let ?f = "Json (JObj [(str ''custom_background_blur'', JInt 25)])"
  let ?s = "startup ?f True"
  have stored: "\<forall>d. ?f = Json (JObj d) \<longrightarrow>
          (\<exists>b. dict_get d (str ''custom_background_blur'') (JInt 0) = JInt b \<and> 0 \<le> b \<and>
               c_int b)"
    by (simp add: dict_get_def c_int_def)
  have v: "bg_blur_amount ?s = JInt 20" "slider_value ?s = 20"
    by (simp_all add: startup_def init_state_def load_games_def load_body_def dict_get_def
        slider_setValue_def c_int_def set_background_blur_def save_games_def)
  from blur_in_range [of ?s 33 ?f True] stored
  have a: "\<exists>b. bg_blur_amount ?s = JInt b \<and> 0 \<le> b \<and> b \<le> 20 \<and> slider_value ?s = b"
    by blast
  have s33: "slider_setValue ?s 33 = Inr ?s"
    using v by (simp add: slider_setValue_def c_int_def)
  let ?st' = "set_background_blur (?s\<lparr>slider_value := 4\<rparr>) 4"
  have s4: "slider_setValue ?s 4 = Inr ?st'"
    using v by (simp add: slider_setValue_def c_int_def)
  have "slider_value ?st' = 4"
    by (simp add: set_background_blur_def save_games_def)
  with v(2) have "?st' \<noteq> ?s" by auto
  with blur_in_range [of ?s 4 ?f True] s4
  have "\<exists>b. bg_blur_amount ?st' = JInt b \<and> 0 \<le> b \<and> b \<le> 20 \<and> slider_value ?st' = b"
    by blast
  with v s33 s4 a show ?thesis by blast
qed

section \<open>Detection and insertion\<close>

lemma scan_entries_unknown:
  "c \<in> set (scan_entries lower get_game_icon known root es) \<Longrightarrow> g \<in> set known \<Longrightarrow>
     path g \<noteq> path c"
proof (induction lower get_game_icon known root es rule: scan_entries.induct)
  case (1 lower get_game_icon known root)
  then show ?case by simp
next
  case (2 lower get_game_icon known root n d es)
  show ?case
  proof (cases "is_dir d")
    case False
    with 2 show ?thesis by simp
  next
    case True
    note dir = this
    show ?thesis
    proof (cases "find_game_exe lower (path_join root n) d")
      case None
      with 2 dir show ?thesis by simp
    next
      case (Some exe_found)
      show ?thesis
      proof (cases "exe_found \<noteq> [] \<and> \<not> list_ex (\<lambda>g. path g = JStr exe_found) known")
        case False
        with 2 dir Some show ?thesis by simp
      next
        case True
        show ?thesis
        proof (cases "c = new_entry (JStr n) (JStr exe_found) (get_game_icon exe_found)")
          case True
          with \<open>exe_found \<noteq> [] \<and> \<not> list_ex (\<lambda>g. path g = JStr exe_found) known\<close> "2.prems"(2)
          show ?thesis by (auto simp: list_ex_iff new_entry_def)
        next
          case False
          with 2 dir Some True show ?thesis by simp
        qed
      qed
    qed
  qed
qed

lemma scan_roots_unknown:
  "scan_roots lower get_game_icon fs known roots = Inr cs \<Longrightarrow> c \<in> set cs \<Longrightarrow>
     g \<in> set known \<Longrightarrow> path g \<noteq> path c"
proof (induction roots arbitrary: cs)
  case Nil
  then show ?case by simp
next
  case (Cons root roots)
  from Cons.prems(1) obtain es cs' where
    cs': "scan_roots lower get_game_icon fs known roots = Inr cs'" and
    cs: "cs = scan_entries lower get_game_icon known root es @ cs'"
    by (auto split: option.splits sum.splits)
  from Cons.prems(2) cs consider
    "c \<in> set (scan_entries lower get_game_icon known root es)" | "c \<in> set cs'"
    by auto
  then show ?case
  proof cases
    case 1
    then show ?thesis using Cons.prems(3) by (rule scan_entries_unknown)
  next
    case 2
    from Cons.IH [OF cs' 2 Cons.prems(3)] show ?thesis .
  qed
qed

text \<open>
  C4: whatever the roots, the file system and the known records, no candidate that
  the scan emits has the path of a known record; a child folder whose chosen executable
  is the path of a known record adds nothing to the candidates.
\<close>

theorem detection_skips_known:
  "(\<forall>cs. scan_roots lower get_game_icon fs known roots = Inr cs \<longrightarrow>
          (\<forall>c \<in> set cs. \<forall>g \<in> set known. path g \<noteq> path c)) \<and>
   (\<forall>exe. find_game_exe lower (path_join root n) d = Some exe \<and>
           (\<exists>g \<in> set known. path g = JStr exe) \<longrightarrow>
           scan_entries lower get_game_icon known root ((n, d) # es)
             = scan_entries lower get_game_icon known root es)"
proof (intro conjI allI impI ballI)
  fix cs c g
  assume "scan_roots lower get_game_icon fs known roots = Inr cs" "c \<in> set cs" "g \<in> set known"
  then show "path g \<noteq> path c" by (rule scan_roots_unknown)
next
  fix exe
  assume "find_game_exe lower (path_join root n) d = Some exe \<and>
          (\<exists>g \<in> set known. path g = JStr exe)"
  then show "scan_entries lower get_game_icon known root ((n, d) # es)
             = scan_entries lower get_game_icon known root es"
    by (auto simp: list_ex_iff)
qed

text \<open>
  A root \<open>C:\\Games\<close> with the folders \<open>Halo\<close> and \<open>Doom\<close>, the catalog already
  holding \<open>Halo.exe\<close>: the scan proposes \<open>Doom\<close> only.
\<close>

theorem detection_skips_known_witness:
  "scan_roots ascii_lower (\<lambda>_. JNull)
     (\<lambda>p. if p = win_path [''C:'', ''Games'']
           then Some (Dir [(str ''Halo'', Dir [(str ''Halo.exe'', File)]),
                           (str ''Doom'', Dir [(str ''doom.exe'', File)])])
           else None)
     [new_entry (JStr (str ''Halo''))
        (JStr (win_path [''C:'', ''Games'', ''Halo'', ''Halo.exe''])) JNull]
     [win_path [''C:'', ''Games'']]
   = Inr [new_entry (JStr (str ''Doom''))
            (JStr (win_path [''C:'', ''Games'', ''Doom'', ''doom.exe''])) JNull] \<and>
   path (new_entry (JStr (str ''Halo''))
           (JStr (win_path [''C:'', ''Games'', ''Halo'', ''Halo.exe''])) JNull)
     \<noteq> path (new_entry (JStr (str ''Doom''))
               (JStr (win_path [''C:'', ''Games'', ''Doom'', ''doom.exe''])) JNull)"
proof -
  let ?fs = "\<lambda>p. if p = win_path [''C:'', ''Games'']
           then Some (Dir [(str ''Halo'', Dir [(str ''Halo.exe'', File)]),
                           (str ''Doom'', Dir [(str ''doom.exe'', File)])])
           else None"
  let ?halo = "new_entry (JStr (str ''Halo''))
                 (JStr (win_path [''C:'', ''Games'', ''Halo'', ''Halo.exe''])) JNull"
  let ?doom = "new_entry (JStr (str ''Doom''))
                 (JStr (win_path [''C:'', ''Games'', ''Doom'', ''doom.exe''])) JNull"
  have h: "find_game_exe ascii_lower (path_join (win_path [''C:'', ''Games'']) (str ''Halo''))
             (Dir [(str ''Halo.exe'', File)])
             = Some (win_path [''C:'', ''Games'', ''Halo'', ''Halo.exe''])"
    by code_simp
  have d: "find_game_exe ascii_lower (path_join (win_path [''C:'', ''Games'']) (str ''Doom''))
             (Dir [(str ''doom.exe'', File)])
             = Some (win_path [''C:'', ''Games'', ''Doom'', ''doom.exe''])"
    by code_simp
  have ne: "win_path [''C:'', ''Games'', ''Doom'', ''doom.exe''] \<noteq> []"
    "win_path [''C:'', ''Games'', ''Doom'', ''doom.exe'']
       \<noteq> win_path [''C:'', ''Games'', ''Halo'', ''Halo.exe'']"
    by code_simp+
  have known: "\<exists>g \<in> set [?halo]. path g = JStr (win_path [''C:'', ''Games'', ''Halo'', ''Halo.exe''])"
    by (simp add: new_entry_def)
  from detection_skips_known [of ascii_lower "\<lambda>_. JNull" ?fs "[?halo]"
      "[win_path [''C:'', ''Games'']]"
      "win_path [''C:'', ''Games'']" "str ''Halo''" "Dir [(str ''Halo.exe'', File)]"
      "[(str ''Doom'', Dir [(str ''doom.exe'', File)])]"] h known
  have skip: "scan_entries ascii_lower (\<lambda>_. JNull) [?halo] (win_path [''C:'', ''Games''])
                [(str ''Halo'', Dir [(str ''Halo.exe'', File)]),
                 (str ''Doom'', Dir [(str ''doom.exe'', File)])]
              = scan_entries ascii_lower (\<lambda>_. JNull) [?halo] (win_path [''C:'', ''Games''])
                [(str ''Doom'', Dir [(str ''doom.exe'', File)])]"
    by blast
  have "scan_entries ascii_lower (\<lambda>_. JNull) [?halo] (win_path [''C:'', ''Games''])
                [(str ''Doom'', Dir [(str ''doom.exe'', File)])] = [?doom]"
    using ne by (simp add: d new_entry_def del: win_path.simps)
  with skip have r: "scan_roots ascii_lower (\<lambda>_. JNull) ?fs [?halo] [win_path [''C:'', ''Games'']]
                      = Inr [?doom]"
    by (simp del: win_path.simps scan_entries.simps)
  with detection_skips_known [of ascii_lower "\<lambda>_. JNull" ?fs "[?halo]"
      "[win_path [''C:'', ''Games'']]"]
  have "path ?halo \<noteq> path ?doom" by simp
  with r show ?thesis by blast
qed

lemma accept_selected_known:
  "list_ex (\<lambda>g. path g = path s) gs \<Longrightarrow> accept_selected gs [s] = gs"
  by simp

lemma accept_selected_distinct:
  "distinct (map path gs) \<Longrightarrow> distinct (map path (accept_selected gs ss))"
proof (induction ss arbitrary: gs)
  case Nil
  then show ?case by simp
next
  case (Cons s ss)
  show ?case
  proof (cases "list_ex (\<lambda>g. path g = path s) gs")
    case True
    with Cons show ?thesis by simp
  next
    case False
    with Cons.prems have "distinct (map path (gs @ [s]))"
      by (auto simp: list_ex_iff)
    from Cons.IH [OF this] False show ?thesis by simp
  qed
qed

text \<open>
  C3: the catalog holds \<open>Halo\<close> at \<open>C:/Games/Halo/Halo.exe\<close> and the user adds that
  same executable by hand. \<open>add_game_manually\<close> appends without looking at the paths
  already present, so the catalog then holds two records with that path, while the loop
  that accepts detected candidates (\<open>accept_selected\<close>) keeps the paths distinct.
\<close>

theorem add_game_manually_duplicate:
  "map path (games (add_game_manually (\<lambda>_. JNull)
      ((init_state Missing True)
         \<lparr>games := [new_entry (JStr (str ''Halo'')) (JStr (str ''C:/Games/Halo/Halo.exe'')) JNull]\<rparr>)
      (Some (str ''C:/Games/Halo/Halo.exe''))))
   = [JStr (str ''C:/Games/Halo/Halo.exe''), JStr (str ''C:/Games/Halo/Halo.exe'')]"
  by (simp add: add_game_manually_def save_games_def init_state_def new_entry_def)

lemma launch_selected_game_keeps_catalog:
  "games (launch_selected_game st current started) = games st \<and>
   games_file (launch_selected_game st current started) = games_file st"
  by (simp add: launch_selected_game_def split: option.splits)

text \<open>
  C5: a record with playtime 0 that was never played is selected and launched.
  \<open>launch_selected_game\<close>, in the definition the class keeps, only starts the file:
  whatever the session lasts, playtime and \<open>last_played\<close> stay as they were.
\<close>

theorem launch_selected_game_records_nothing:
  "games (launch_selected_game
      ((init_state Missing True)
         \<lparr>games := [new_entry (JStr (str ''Halo'')) (JStr (str ''C:/Games/Halo/Halo.exe'')) JNull]\<rparr>)
      (Some (str ''C:/Games/Halo/Halo.exe'')) True)
   = [\<lparr>name = JStr (str ''Halo''), path = JStr (str ''C:/Games/Halo/Halo.exe''),
       icon_path = JNull, is_favorite = JBool False, notes = JStr [],
       last_played = JStr (str ''Never''), total_playtime = JInt 0\<rparr>]"
  by (simp add: launch_selected_game_def init_state_def new_entry_def)

text \<open>
  The module-level function of the same name, which nothing calls, does record the
  session: 125 seconds on that record give playtime 125 and the current time.
\<close>

lemma launch_selected_game_module_records:
  "games (launch_selected_game_module
      ((init_state Missing True)
         \<lparr>games := [new_entry (JStr (str ''Halo'')) (JStr (str ''C:/Games/Halo/Halo.exe'')) JNull]\<rparr>)
      (Some (str ''C:/Games/Halo/Halo.exe'')) True 125 (str ''2024-05-01 20:15:00''))
   = [\<lparr>name = JStr (str ''Halo''), path = JStr (str ''C:/Games/Halo/Halo.exe''),
       icon_path = JNull, is_favorite = JBool False, notes = JStr [],
       last_played = JStr (str ''2024-05-01 20:15:00''), total_playtime = JInt 125\<rparr>]"
  by (simp add: launch_selected_game_module_def init_state_def new_entry_def save_games_def
      Let_def)

lemma save_games_persists:
  "file_writable st \<Longrightarrow> games_file (save_games st) = Json (document (save_games st))"
  by (simp add: save_games_def document_def)

lemma set_background_blur_persists:
  "file_writable st \<Longrightarrow>
     games_file (set_background_blur st v) = Json (document (set_background_blur st v))"
  by (simp add: set_background_blur_def save_games_persists)

lemma set_custom_background_persists:
  "file_writable st \<Longrightarrow>
     games_file (set_custom_background st (Some p))
       = Json (document (set_custom_background st (Some p)))"
  by (simp add: set_custom_background_def save_games_persists)

lemma add_game_manually_persists:
  "file_writable st \<Longrightarrow>
     games_file (add_game_manually get_game_icon st (Some exe))
       = Json (document (add_game_manually get_game_icon st (Some exe)))"
  by (simp add: add_game_manually_def save_games_persists)

text \<open>
  C6: the launcher has started without a backing file, which wrote the empty document,
  and the user adds the scan folder \<open>D:/Games\<close>. \<open>add_scan_folder\<close> changes the list in
  memory and does not call \<open>save_games\<close>: the file still holds the document without the
  folder, which is no longer the document in memory. Changing the blur, the background or
  the records does rewrite the file.
\<close>

theorem add_scan_folder_not_saved:
  "\<exists>st'. add_scan_folder (startup Missing True) (Some (str ''D:/Games'')) = Inr st' \<and>
         custom_scan_folders st' = JList [JStr (str ''D:/Games'')] \<and>
         games_file st' = Json (document (startup Missing True)) \<and>
         games_file st' \<noteq> Json (document st')"
  by (simp add: add_scan_folder_def startup_def init_state_def load_games_def save_games_def
      document_def)

end
